theory Spec2Isabelle
  imports Main "HOL-Library.Word" "HOL-Library.AList"
begin

section \<open>Strings and lexical paths\<close>

text \<open>
  Go strings are byte sequences; they are modelled as \<open>string\<close> (a list of
  \<open>char\<close>). \<open>HasPrefix\<close> is \<^verbatim>\<open>strings.HasPrefix\<close>.
\<close>

definition HasPrefix :: "string \<Rightarrow> string \<Rightarrow> bool" where
  "HasPrefix s p = (take (length p) s = p)"

text \<open>Splitting at every occurrence of a separator byte, and joining again.\<close>

fun split_on :: "char \<Rightarrow> string \<Rightarrow> string list" where
  "split_on c [] = [[]]"
| "split_on c (x # xs) =
     (if x = c then [] # split_on c xs
      else (case split_on c xs of
              w # ws \<Rightarrow> (x # w) # ws
            | [] \<Rightarrow> [[x]]))"

fun join_with :: "string \<Rightarrow> string list \<Rightarrow> string" where
  "join_with sep [] = []"
| "join_with sep [x] = x"
| "join_with sep (x # y # ys) = x @ sep @ join_with sep (y # ys)"

text \<open>
  \<^verbatim>\<open>path.Clean\<close> of the Go library, purely lexical: empty and \<open>.\<close> elements
  vanish, an inner \<open>..\<close> removes the element before it, a \<open>..\<close> at the
  root of a rooted path vanishes, and a leading \<open>..\<close> of a relative path
  stays. The stack of \<open>clean_step\<close> holds the elements kept so far, the
  last one first.
\<close>

fun clean_step :: "bool \<Rightarrow> string list \<Rightarrow> string \<Rightarrow> string list" where
  "clean_step rooted stk c =
     (if c = [] \<or> c = ''.'' then stk
      else if c = ''..'' then
        (case stk of
           [] \<Rightarrow> if rooted then [] else [''..'']
         | e # below \<Rightarrow>
             if e = ''..'' then (if rooted then stk else ''..'' # stk) else below)
      else c # stk)"

definition path_Clean :: "string \<Rightarrow> string" where
  "path_Clean p =
     (if p = [] then ''.''
      else
        (let rooted = (hd p = CHR ''/'');
             stk = foldl (clean_step rooted) [] (split_on CHR ''/'' p);
             out = (if rooted then ''/'' else []) @ join_with ''/'' (rev stk)
         in if out = [] then ''.'' else out))"

text \<open>\<^verbatim>\<open>path.Join\<close>: the non-empty elements joined by slashes, then cleaned.\<close>

definition path_Join :: "string list \<Rightarrow> string" where
  "path_Join elems =
     (let es = filter (\<lambda>e. e \<noteq> []) elems
      in if es = [] then [] else path_Clean (join_with ''/'' es))"

text \<open>\<^verbatim>\<open>path.Base\<close>: the last element, trailing slashes removed first.\<close>

definition path_Base :: "string \<Rightarrow> string" where
  "path_Base p =
     (if p = [] then ''.''
      else
        (let q = dropWhile (\<lambda>c. c = CHR ''/'') (rev p);
             r = rev (takeWhile (\<lambda>c. c \<noteq> CHR ''/'') q)
         in if r = [] then ''/'' else r))"

text \<open>\<^verbatim>\<open>path.Dir\<close>: everything up to and including the last slash, cleaned.\<close>

definition path_Dir :: "string \<Rightarrow> string" where
  "path_Dir p = path_Clean (rev (dropWhile (\<lambda>c. c \<noteq> CHR ''/'') (rev p)))"

section \<open>Data model of the init supervisor\<close>

text \<open>
  The profile, whitelist and configuration types are declared in package
  \<^verbatim>\<open>oz\<close>; the fields below are those the init code reads. Field names carry
  a short prefix because record fields share one name space.
\<close>

type_synonym uint32 = "32 word"

record WhitelistItem =
  wl_Path :: string
  wl_Target :: string
  wl_Symlink :: string
  wl_ReadOnly :: bool
  wl_CanCreate :: bool
  wl_Ignore :: bool
  wl_AllowSetuid :: bool
  wl_Force :: bool
  wl_NoFollow :: bool

record BlacklistItem =
  bl_Path :: string

datatype SeccompMode =
  PROFILE_SECCOMP_TRAIN
| PROFILE_SECCOMP_WHITELIST
| PROFILE_SECCOMP_BLACKLIST
| PROFILE_SECCOMP_DISABLED

datatype AudioMode =
  PROFILE_AUDIO_NONE
| PROFILE_AUDIO_SPEAKER
| PROFILE_AUDIO_FULL
| PROFILE_AUDIO_PULSE

datatype ShutdownMode =
  PROFILE_SHUTDOWN_NO
| PROFILE_SHUTDOWN_YES
| PROFILE_SHUTDOWN_SOFT

record Profile =
  p_Name :: string
  p_Path :: string
  p_DefaultParams :: "string list"
  p_RejectUserArgs :: bool
  p_AutoShutdown :: ShutdownMode
  p_Watchdog :: "string list"
  p_IsSandboxedTerminal :: bool
  p_DConfPath :: string
  p_NoSysProc :: bool
  p_Whitelist :: "WhitelistItem list"
  p_Blacklist :: "BlacklistItem list"
  p_SharedFolders :: "string list"
  p_XServerEnabled :: bool
  p_XServerAudioMode :: AudioMode
  p_SeccompMode :: SeccompMode
  p_SeccompEnforce :: bool

record Config =
  c_PrefixPath :: string
  c_DivertSuffix :: string
  c_DivertPath :: bool
  c_ShellPath :: string
  c_AllowRootShell :: bool
  c_UseFullDev :: bool

record User =
  u_HomeDir :: string

record Credential =
  cr_Uid :: uint32
  cr_Gid :: uint32
  cr_Groups :: "uint32 list"

text \<open>
  An \<^verbatim>\<open>exec.Cmd\<close> as it stands when \<^verbatim>\<open>Start\<close> is called. An empty
  \<open>cmd_Dir\<close> means that the child runs in the working directory of init.
\<close>

datatype stdin_source = StdinNone | StdinProfileJSON | StdinTty

record Cmd =
  cmd_Path :: string
  cmd_Args :: "string list"
  cmd_Env :: "string list"
  cmd_Dir :: string
  cmd_Credential :: "Credential option"
  cmd_Stdin :: stdin_source

record procState =
  ps_cmd :: Cmd
  ps_pid :: int
  ps_track :: bool

datatype loglevel = Debug | Info | Notice | Warning | Error

datatype bind_flag =
  BindCanCreate | BindIgnore | BindReadOnly | BindAllowSetuid | BindForce | BindNoFollow

datatype fs_op =
  SetupRootfs
| BindTo string string "bind_flag set"
| CreateSymlink string string
| Lchown string
| BlacklistPath string
| XpraCreateDir
| BindPath string
| Chroot
| MountFullDev
| MountShm
| MountPts
| MountProc
| MountSys

text \<open>
  What init does to the world, in the order it does it. A log line is recorded
  by its level and its format string; the arguments are not rendered.
\<close>

datatype event =
  EvLog loglevel string
| EvStart Cmd int
| EvSignalInterrupt int
| EvXpraStop uint32 uint32
| EvIpcClose
| EvAcceptLoop int string string
| EvFs fs_op

text \<open>
  \<open>st_children\<close> is the Go map from pid to \<open>procState\<close>, kept as an
  association list with distinct keys; Go leaves the iteration order of a map
  open and the list fixes one. \<open>st_gids\<close> likewise. \<open>st_ipcServer\<close> and
  \<open>st_xpra\<close> say whether the pointer is set. \<open>st_effects\<close> is not a field
  of the source: it accumulates the events performed.
\<close>

record initState =
  st_profile :: Profile
  st_config :: Config
  st_launchEnv :: "string list"
  st_children :: "(int \<times> procState) list"
  st_uid :: uint32
  st_gid :: uint32
  st_gids :: "(string \<times> uint32) list"
  st_user :: User
  st_display :: int
  st_ipcServer :: bool
  st_xpra :: bool
  st_shutdownRequested :: bool
  st_ephemeral :: bool
  st_effects :: "event list"

definition emit :: "event \<Rightarrow> initState \<Rightarrow> initState" where
  "emit e st = st\<lparr>st_effects := st_effects st @ [e]\<rparr>"

abbreviation logf :: "loglevel \<Rightarrow> string \<Rightarrow> initState \<Rightarrow> initState" where
  "logf l m \<equiv> emit (EvLog l m)"

section \<open>The ephemeral filter\<close>

definition whitelistItemIsEphemeral :: "WhitelistItem \<Rightarrow> bool" where
  "whitelistItemIsEphemeral wl =
     (if wl_Path wl = [] then False
      else if wl_Target wl \<noteq> [] then
        (HasPrefix (wl_Target wl) ''${HOME}'' \<or> HasPrefix (wl_Target wl) ''${XDG_'')
      else
        (HasPrefix (wl_Path wl) ''${HOME}'' \<or> HasPrefix (wl_Path wl) ''${XDG_''))"

text \<open>
  Both filters are the same loop: the index runs from the last element down to
  the first, and an element that is to go is cut out of the slice with
  \<^verbatim>\<open>append(s[:i], s[i+1:]...)\<close>. The first argument of \<open>cut_backwards\<close>
  is the test, the second is \<open>i + 1\<close>.
\<close>

fun cut_backwards :: "('a \<Rightarrow> bool) \<Rightarrow> nat \<Rightarrow> 'a list \<Rightarrow> 'a list" where
  "cut_backwards del 0 xs = xs"
| "cut_backwards del (Suc i) xs =
     (if del (xs ! i) then cut_backwards del i (take i xs @ drop (Suc i) xs)
      else cut_backwards del i xs)"

text \<open>The loop of \<^verbatim>\<open>setupFilesystem\<close> over \<^verbatim>\<open>st.profile.Whitelist\<close>.\<close>

definition ephemeralWhitelist :: "initState \<Rightarrow> initState" where
  "ephemeralWhitelist st =
     (if st_ephemeral st then
        st\<lparr>st_profile := (st_profile st)\<lparr>p_Whitelist :=
          cut_backwards (\<lambda>wl. wl_Path wl \<noteq> [] \<and> whitelistItemIsEphemeral wl)
            (length (p_Whitelist (st_profile st))) (p_Whitelist (st_profile st))\<rparr>\<rparr>
      else st)"

text \<open>The loop of \<^verbatim>\<open>runInit\<close> over \<^verbatim>\<open>st.profile.SharedFolders\<close>.\<close>

definition ephemeralSharedFolders :: "initState \<Rightarrow> initState" where
  "ephemeralSharedFolders st =
     (if st_ephemeral st then
        st\<lparr>st_profile := (st_profile st)\<lparr>p_SharedFolders :=
          cut_backwards (\<lambda>sf. HasPrefix sf ''${HOME}'' \<or> HasPrefix sf ''${XDG_'')
            (length (p_SharedFolders (st_profile st))) (p_SharedFolders (st_profile st))\<rparr>\<rparr>
      else st)"

section \<open>The filesystem builder\<close>

text \<open>
  The filesystem itself belongs to package \<^verbatim>\<open>fs\<close>; \<^verbatim>\<open>setupRootfs\<close> and
  \<^verbatim>\<open>xpra.CreateDir\<close> are outside the sources as well. What they answer is a
  parameter: \<open>fs_error\<close> gives the error (if any) of an operation, by the
  number of events recorded before it and the operation; \<open>fs_resolve\<close> is
  \<^verbatim>\<open>fs.ResolvePathNoGlob\<close> (an error on the left); \<open>fs_symlink\<close> is the
  path \<^verbatim>\<open>CreateSymlink\<close> returns and \<open>fs_xpra_dir\<close> the directory
  \<^verbatim>\<open>xpra.CreateDir\<close> returns.
\<close>

record fs_env =
  fs_error :: "nat \<Rightarrow> fs_op \<Rightarrow> string option"
  fs_resolve :: "string \<Rightarrow> string + string"
  fs_symlink :: "string \<Rightarrow> string \<Rightarrow> string"
  fs_xpra_dir :: string

text \<open>An operation is recorded when it is attempted; it may then fail.\<close>

definition fs_do :: "fs_env \<Rightarrow> fs_op \<Rightarrow> initState \<Rightarrow> initState \<times> string option" where
  "fs_do fe op st = (emit (EvFs op) st, fs_error fe (length (st_effects st)) op)"

text \<open>Sequencing with return on the first error.\<close>

definition then_do ::
  "initState \<times> string option \<Rightarrow> (initState \<Rightarrow> initState \<times> string option)
     \<Rightarrow> initState \<times> string option" where
  "then_do r f = (case r of (s, Some err) \<Rightarrow> (s, Some err) | (s, None) \<Rightarrow> f s)"

definition bindFlags :: "WhitelistItem \<Rightarrow> bind_flag set" where
  "bindFlags wl =
     (if wl_CanCreate wl then {BindCanCreate} else {})
     \<union> (if wl_Ignore wl then {BindIgnore} else {})
     \<union> (if wl_ReadOnly wl then {BindReadOnly} else {})
     \<union> (if wl_AllowSetuid wl then {BindAllowSetuid, BindReadOnly} else {})
     \<union> (if wl_Force wl then {BindForce} else {})
     \<union> (if wl_NoFollow wl then {BindNoFollow} else {})"

fun bindWhitelist ::
  "fs_env \<Rightarrow> WhitelistItem list \<Rightarrow> initState \<Rightarrow> initState \<times> string option" where
  "bindWhitelist fe [] st = (st, None)"
| "bindWhitelist fe (wl # wlist) st =
     (if wl_Path wl = [] then bindWhitelist fe wlist st
      else then_do (fs_do fe (BindTo (wl_Path wl) (wl_Target wl) (bindFlags wl)) st)
             (bindWhitelist fe wlist))"

fun createBindSymlinks ::
  "fs_env \<Rightarrow> WhitelistItem list \<Rightarrow> initState \<Rightarrow> initState \<times> string option" where
  "createBindSymlinks fe [] st = (st, None)"
| "createBindSymlinks fe (wl # wlist) st =
     (if wl_Symlink wl = [] then createBindSymlinks fe wlist st
      else
        (case fs_resolve fe (wl_Symlink wl) of
           Inl err \<Rightarrow> (st, Some err)
         | Inr symlink \<Rightarrow>
        (case fs_resolve fe (wl_Path wl) of
           Inl err \<Rightarrow> (st, Some err)
         | Inr ppath \<Rightarrow>
        (case (if wl_Target wl = [] then Inr ppath else fs_resolve fe (wl_Target wl)) of
           Inl err \<Rightarrow> (st, Some err)
         | Inr dest \<Rightarrow>
             then_do (fs_do fe (CreateSymlink dest symlink) st)
               (\<lambda>s1. case fs_do fe (Lchown (fs_symlink fe dest symlink)) s1 of
                        (s2, Some err) \<Rightarrow>
                          createBindSymlinks fe wlist
                            (logf Warning ''Failed to chown symbolic link: %v'' s2)
                      | (s2, None) \<Rightarrow> createBindSymlinks fe wlist s2)))))"

fun applyBlacklist ::
  "fs_env \<Rightarrow> BlacklistItem list \<Rightarrow> initState \<Rightarrow> initState \<times> string option" where
  "applyBlacklist fe [] st = (st, None)"
| "applyBlacklist fe (bl # blist) st =
     (if bl_Path bl = [] then applyBlacklist fe blist st
      else then_do (fs_do fe (BlacklistPath (bl_Path bl)) st) (applyBlacklist fe blist))"

text \<open>\<^verbatim>\<open>mountOps.run\<close>.\<close>

fun mountOps_run :: "fs_env \<Rightarrow> fs_op list \<Rightarrow> initState \<Rightarrow> initState \<times> string option" where
  "mountOps_run fe [] st = (st, None)"
| "mountOps_run fe (f # ops) st = then_do (fs_do fe f st) (mountOps_run fe ops)"

definition setupFilesystem ::
  "fs_env \<Rightarrow> WhitelistItem list \<Rightarrow> BlacklistItem list \<Rightarrow> initState
     \<Rightarrow> initState \<times> string option" where
  "setupFilesystem fe extra_whitelist extra_blacklist st =
     then_do (fs_do fe SetupRootfs st) (\<lambda>s0.
     then_do (bindWhitelist fe extra_whitelist (ephemeralWhitelist s0)) (\<lambda>s1.
     then_do (bindWhitelist fe (p_Whitelist (st_profile s1)) s1) (\<lambda>s2.
     then_do (createBindSymlinks fe (p_Whitelist (st_profile s2) @ extra_whitelist) s2) (\<lambda>s3.
     then_do (applyBlacklist fe extra_blacklist s3) (\<lambda>s4.
     then_do (applyBlacklist fe (p_Blacklist (st_profile s4)) s4) (\<lambda>s5.
     then_do (if p_XServerEnabled (st_profile s5)
              then then_do (fs_do fe XpraCreateDir s5) (fs_do fe (BindPath (fs_xpra_dir fe)))
              else (s5, None)) (\<lambda>s6.
     then_do (fs_do fe Chroot s6) (\<lambda>s7.
       mountOps_run fe
         ((if c_UseFullDev (st_config s7) then [MountFullDev, MountShm] else [])
          @ [MountPts]
          @ (if p_NoSysProc (st_profile s7) \<noteq> True then [MountProc, MountSys] else []))
         s7))))))))"

text \<open>
  The bind mounts among a list of events, and the bind mounts a whitelist asks
  for: one for each item with a non-empty path, in order.
\<close>

fun isBindTo :: "event \<Rightarrow> bool" where
  "isBindTo (EvFs (BindTo p t f)) = True"
| "isBindTo e = False"

definition bindsOf :: "WhitelistItem list \<Rightarrow> event list" where
  "bindsOf wlist =
     map (\<lambda>wl. EvFs (BindTo (wl_Path wl) (wl_Target wl) (bindFlags wl)))
       (filter (\<lambda>wl. wl_Path wl \<noteq> []) wlist)"

text \<open>
  \<open>bindState bs P s\<close>: the bind mounts recorded in \<open>s\<close> are \<open>bs\<close> and its
  profile is \<open>P\<close>.
\<close>

definition bindState :: "event list \<Rightarrow> Profile \<Rightarrow> initState \<Rightarrow> bool" where
  "bindState bs P s = (filter isBindTo (st_effects s) = bs \<and> st_profile s = P)"

section \<open>The child registry\<close>

definition addChildProcess :: "Cmd \<Rightarrow> int \<Rightarrow> bool \<Rightarrow> initState \<Rightarrow> initState" where
  "addChildProcess cmd pid track st =
     st\<lparr>st_children :=
       AList.update pid \<lparr>ps_cmd = cmd, ps_pid = pid, ps_track = track\<rparr> (st_children st)\<rparr>"


definition childrenVector :: "initState \<Rightarrow> procState list" where
  "childrenVector st = map snd (st_children st)"

section \<open>Shutdown\<close>

text \<open>
  \<open>xstop\<close> is what \<^verbatim>\<open>xpra.Stop\<close> returns (package \<^verbatim>\<open>xpra\<close>): an error
  on the left, the output of the stop command on the right.
\<close>

definition shutdownXpra :: "string + string \<Rightarrow> initState \<Rightarrow> initState" where
  "shutdownXpra xstop st =
     (if \<not> st_xpra st then st
      else
        (let st1 = emit (EvXpraStop (st_uid st) (st_gid st)) st
         in case xstop of
              Inl err \<Rightarrow> logf Warning ''Error running xpra stop: %v'' st1
            | Inr out \<Rightarrow>
                foldl (\<lambda>s line. if length line > 0 then logf Debug ''(xpra stop) %s'' s else s)
                  st1 (split_on (CHR 0x0A) out)))"

definition shutdown :: "string + string \<Rightarrow> initState \<Rightarrow> initState" where
  "shutdown xstop st =
     (if st_shutdownRequested st then st
      else
        (let st1 = st\<lparr>st_shutdownRequested := True\<rparr>;
             st2 = foldl (\<lambda>s c. emit (EvSignalInterrupt (ps_pid c)) s) st1 (childrenVector st1);
             st3 = shutdownXpra xstop st2
         in if st_ipcServer st3 then emit EvIpcClose st3 else st3))"

text \<open>
  The events one call of \<open>shutdownXpra\<close> adds: the stop command, then
  either the warning or one debug line for each non-empty line of its output.
\<close>

definition xpraStopEvents :: "string + string \<Rightarrow> initState \<Rightarrow> event list" where
  "xpraStopEvents xstop st =
     (if st_xpra st then
        EvXpraStop (st_uid st) (st_gid st) #
        (case xstop of
           Inl err \<Rightarrow> [EvLog Warning ''Error running xpra stop: %v'']
         | Inr out \<Rightarrow> map (\<lambda>line. EvLog Debug ''(xpra stop) %s'')
                        (filter (\<lambda>line. length line > 0) (split_on (CHR 0x0A) out)))
      else [])"

section \<open>Child exit\<close>

text \<open>
  \<open>procs\<close> is what the glob \<^verbatim>\<open>/proc/[0-9]*/cmdline\<close> and the reads give: one
  entry for each path, \<open>None\<close> when the file cannot be read. The command name
  is the text before the first NUL byte; \<^verbatim>\<open>filepath.Base\<close> is \<open>path_Base\<close> on
  Linux.
\<close>

fun getProcessExists :: "string option list \<Rightarrow> string list \<Rightarrow> bool" where
  "getProcessExists [] pnames = False"
| "getProcessExists (None # paths) pnames = getProcessExists paths pnames"
| "getProcessExists (Some pr # paths) pnames =
     (let prs = takeWhile (\<lambda>prb. prb \<noteq> CHR 0x00) pr;
          cmdb = path_Base prs
      in if cmdb = ''.'' then getProcessExists paths pnames
         else if cmdb \<in> set pnames then True
         else getProcessExists paths pnames)"



section \<open>Launching processes\<close>

text \<open>
  What the operating system and the libraries answer during one call of a
  launcher or handler: the environment of init, the lookup of a bare program
  name in \<^verbatim>\<open>PATH\<close>, whether \<^verbatim>\<open>os.Stat\<close> succeeds on a path, the error (if
  any) of creating each pipe, of marshalling the profile, of the dconf
  command and of opening a pty (on the right: the descriptor of the master
  side), the command \<^verbatim>\<open>xpra.NewServer\<close> builds, and the result of
  \<^verbatim>\<open>Start\<close>: an error, or the pid of the new process.
\<close>

record os_env =
  os_Environ :: "string list"
  os_LookPath :: "string \<Rightarrow> string option"
  os_Stat :: "string \<Rightarrow> bool"
  os_StdoutPipe :: "string option"
  os_StderrPipe :: "string option"
  os_StdinPipe :: "string option"
  os_Marshal :: "string option"
  os_DConf :: "string option"
  os_PtyOpen :: "string + int"
  os_XpraNewServer :: "Cmd option"
  os_Start :: "Cmd \<Rightarrow> string + int"

text \<open>
  \<^verbatim>\<open>exec.Command\<close>: a name without a directory part is looked up in
  \<^verbatim>\<open>PATH\<close>; the name itself is always the first argument.
\<close>

definition exec_Command :: "os_env \<Rightarrow> string \<Rightarrow> string list \<Rightarrow> Cmd" where
  "exec_Command env name arg =
     \<lparr>cmd_Path = (if path_Base name = name
                  then (case os_LookPath env name of Some lp \<Rightarrow> lp | None \<Rightarrow> name)
                  else name),
      cmd_Args = name # arg,
      cmd_Env = [],
      cmd_Dir = [],
      cmd_Credential = None,
      cmd_Stdin = StdinNone\<rparr>"

definition setEnvironOverrides :: "os_env \<Rightarrow> string list \<Rightarrow> string list" where
  "setEnvironOverrides env e = e @ filter (\<lambda>evar. HasPrefix evar ''OZ_'') (os_Environ env)"

text \<open>
  The first lines of both application launchers: the default path, the
  diversion, and the argument policy.
\<close>

definition divertedPath :: "initState \<Rightarrow> string \<Rightarrow> string" where
  "divertedPath st cpath =
     (let c1 = (if cpath = [] then p_Path (st_profile st) else cpath);
          c2 = (if c_DivertSuffix (st_config st) \<noteq> []
                then c1 @ ''.'' @ c_DivertSuffix (st_config st) else c1)
      in if c_DivertPath (st_config st)
         then path_Join [path_Dir c2 @ ''-oz'', path_Base c2] else c2)"

definition policyArgs :: "initState \<Rightarrow> string list \<Rightarrow> string list" where
  "policyArgs st cmdArgs =
     (let a1 = (if p_RejectUserArgs (st_profile st) = True then [] else cmdArgs)
      in if length (p_DefaultParams (st_profile st)) > 0
         then p_DefaultParams (st_profile st) @ a1 else a1)"

definition logRejectUserArgs :: "initState \<Rightarrow> initState" where
  "logRejectUserArgs st =
     (if p_RejectUserArgs (st_profile st) = True
      then logf Notice
             ''RejectUserArgs true, discarding user supplied command arguments: %v'' st
      else st)"

definition sandboxCredential :: "initState \<Rightarrow> Credential" where
  "sandboxCredential st =
     \<lparr>cr_Uid = st_uid st, cr_Gid = st_gid st,
      cr_Groups = [st_gid st] @ map snd (st_gids st)\<rparr>"

text \<open>
  The seccomp switch of \<^verbatim>\<open>launchApplication\<close>: the program to execute and
  the arguments after it.
\<close>

definition seccompApplication :: "initState \<Rightarrow> string \<Rightarrow> string list \<Rightarrow> string \<times> string list" where
  "seccompApplication st cpath cmdArgs =
     (let spath = path_Join [c_PrefixPath (st_config st), ''bin'', ''oz-seccomp''];
          tracer = path_Join [c_PrefixPath (st_config st), ''bin'', ''oz-seccomp-tracer'']
      in case p_SeccompMode (st_profile st) of
           PROFILE_SECCOMP_TRAIN \<Rightarrow>
             (tracer, [spath, ''-mode=whitelist'', cpath] @ cmdArgs)
         | PROFILE_SECCOMP_WHITELIST \<Rightarrow>
             if p_SeccompEnforce (st_profile st) = False
             then (tracer, [''-r'', ''-p'', ''-'', spath, ''-mode=whitelist'', cpath] @ cmdArgs)
             else (spath, [''-mode=whitelist'', cpath] @ cmdArgs)
         | PROFILE_SECCOMP_BLACKLIST \<Rightarrow>
             if p_SeccompEnforce (st_profile st) = False
             then (tracer, [spath, ''-mode=blacklist'', cpath] @ cmdArgs)
             else (spath, [''-mode=blacklist'', cpath] @ cmdArgs)
         | PROFILE_SECCOMP_DISABLED \<Rightarrow> (cpath, cmdArgs))"

definition logSeccomp :: "string \<Rightarrow> string \<Rightarrow> string \<Rightarrow> initState \<Rightarrow> initState" where
  "logSeccomp train white black st =
     (case p_SeccompMode (st_profile st) of
        PROFILE_SECCOMP_TRAIN \<Rightarrow> logf Notice train st
      | PROFILE_SECCOMP_WHITELIST \<Rightarrow> logf Notice white st
      | PROFILE_SECCOMP_BLACKLIST \<Rightarrow> logf Notice black st
      | PROFILE_SECCOMP_DISABLED \<Rightarrow> st)"

text \<open>
  For the three filtering modes the profile is marshalled and written to the
  standard input of the wrapper.
\<close>

definition seccompStdin :: "os_env \<Rightarrow> initState \<Rightarrow> Cmd \<Rightarrow> string + Cmd" where
  "seccompStdin env st cmd =
     (if p_SeccompMode (st_profile st) = PROFILE_SECCOMP_WHITELIST
         \<or> p_SeccompMode (st_profile st) = PROFILE_SECCOMP_BLACKLIST
         \<or> p_SeccompMode (st_profile st) = PROFILE_SECCOMP_TRAIN
      then (case os_StdinPipe env of
              Some err \<Rightarrow> Inl (''error creating stdin pipe for seccomp process: '' @ err)
            | None \<Rightarrow>
                (case os_Marshal env of
                   Some err \<Rightarrow> Inl (''Unable to marshal seccomp state: '' @ err)
                 | None \<Rightarrow> Inr (cmd\<lparr>cmd_Stdin := StdinProfileJSON\<rparr>)))
      else Inr cmd)"

definition workingDir :: "os_env \<Rightarrow> string \<Rightarrow> Cmd \<Rightarrow> Cmd" where
  "workingDir env pwd cmd = (if os_Stat env pwd then cmd\<lparr>cmd_Dir := pwd\<rparr> else cmd)"

text \<open>
  \<^verbatim>\<open>launchApplication\<close>. The two tasks that copy the output of the child
  to the log run beside init and are not modelled.
\<close>

definition launchApplication ::
  "os_env \<Rightarrow> string \<Rightarrow> string \<Rightarrow> string list \<Rightarrow> initState \<Rightarrow> initState \<times> (string + Cmd)" where
  "launchApplication env cpath0 pwd0 cmdArgs0 st =
     (let cpath1 = divertedPath st cpath0;
          st1 = logRejectUserArgs st;
          cmdArgs1 = policyArgs st cmdArgs0;
          st2 = logSeccomp ''Enabling seccomp training mode for : %s''
                  ''Enabling seccomp whitelist for: %s''
                  ''Enabling seccomp blacklist for: %s'' st1;
          (cpath, cmdArgs) = seccompApplication st cpath1 cmdArgs1;
          cmd = exec_Command env cpath []
      in case os_StdoutPipe env of
           Some err \<Rightarrow> (logf Warning ''Failed to create stdout pipe: %v'' st2, Inl err)
         | None \<Rightarrow>
        (case os_StderrPipe env of
           Some err \<Rightarrow> (logf Warning ''Failed to create stderr pipe: %v'' st2, Inl err)
         | None \<Rightarrow>
        (let cmd1 = cmd\<lparr>cmd_Credential := Some (sandboxCredential st)\<rparr>;
             cmd2 = cmd1\<lparr>cmd_Env := setEnvironOverrides env (cmd_Env cmd1) @ st_launchEnv st\<rparr>
         in case seccompStdin env st cmd2 of
              Inl err \<Rightarrow> (st2, Inl err)
            | Inr cmd3 \<Rightarrow>
           (let cmd4 = cmd3\<lparr>cmd_Args := cmd_Args cmd3 @ cmdArgs\<rparr>;
                pwd = (if pwd0 = [] then u_HomeDir (st_user st) else pwd0);
                cmd5 = workingDir env pwd cmd4
            in case os_Start env cmd5 of
                 Inl err \<Rightarrow>
                   (logf Warning ''Failed to start application (%s): %v'' st2, Inl err)
               | Inr pid \<Rightarrow>
                   (addChildProcess cmd5 pid True (emit (EvStart cmd5 pid) st2), Inr cmd5)))))"

text \<open>
  \<^verbatim>\<open>launchTerminalApplication\<close>. The dconf step of the source names a
  variable that is not in scope; it is taken as running the dconf command,
  whose error (if any) is \<open>os_DConf\<close>.
\<close>

definition PS1_h :: string where
  "PS1_h = ''PS1=['' @ [CHR 0x5C] @ ''h] $ ''"

definition launchTerminalApplication ::
  "os_env \<Rightarrow> string \<Rightarrow> string \<Rightarrow> string list \<Rightarrow> bool \<Rightarrow> initState
     \<Rightarrow> initState \<times> (string + Cmd)" where
  "launchTerminalApplication env cpath0 pwd0 cmdArgs0 noexec st =
     (let cpath = divertedPath st cpath0;
          st1 = logRejectUserArgs st;
          cmdArgs = policyArgs st cmdArgs0;
          dconf = (if length (p_DConfPath (st_profile st)) > 0 then os_DConf env else None);
          st2 = (if length (p_DConfPath (st_profile st)) > 0
                 then logf Notice ''Loading dconf configuration from: %v'' st1 else st1)
      in case dconf of
           Some err \<Rightarrow>
             (logf Warning ''dconf loading of %v did not complete successfully: %v'' st2, Inl err)
         | None \<Rightarrow>
        (let tcmd = exec_Command env ''/usr/bin/gnome-terminal'' [''--hide-menubar'', ''--'']
         in case os_StdoutPipe env of
              Some err \<Rightarrow> (logf Warning ''Failed to create stdout pipe: %v'' st2, Inl err)
            | None \<Rightarrow>
           (case os_StderrPipe env of
              Some err \<Rightarrow> (logf Warning ''Failed to create stderr pipe: %v'' st2, Inl err)
            | None \<Rightarrow>
           (let tcmd1 = tcmd\<lparr>cmd_Credential := Some (sandboxCredential st)\<rparr>;
                tcmd2 = tcmd1\<lparr>cmd_Env := (cmd_Env tcmd1 @ [PS1_h]) @ st_launchEnv st\<rparr>;
                tcmd3 = (if \<not> noexec
                         then tcmd2\<lparr>cmd_Args := (cmd_Args tcmd2 @ [cpath]) @ cmdArgs\<rparr>
                         else tcmd2\<lparr>cmd_Args := cmd_Args tcmd2 @ [c_ShellPath (st_config st)]\<rparr>);
                pwd = (if pwd0 = [] then u_HomeDir (st_user st) else pwd0);
                tcmd4 = workingDir env pwd tcmd3
            in case os_Start env tcmd4 of
                 Inl err \<Rightarrow>
                   (logf Warning ''Failed to start terminal server (%s): %v'' st2, Inl err)
               | Inr pid \<Rightarrow>
                   (addChildProcess tcmd4 pid False (emit (EvStart tcmd4 pid) st2),
                    Inr tcmd4)))))"

text \<open>The seccomp switch of \<^verbatim>\<open>launchTerminalServer\<close>.\<close>

definition seccompTerminalServer :: "initState \<Rightarrow> string \<Rightarrow> string \<times> string list" where
  "seccompTerminalServer st tspath =
     (let spath = path_Join [c_PrefixPath (st_config st), ''bin'', ''oz-seccomp''];
          tracer = path_Join [c_PrefixPath (st_config st), ''bin'', ''oz-seccomp-tracer'']
      in case p_SeccompMode (st_profile st) of
           PROFILE_SECCOMP_TRAIN \<Rightarrow> (tracer, [spath, ''-mode=whitelist'', tspath])
         | PROFILE_SECCOMP_WHITELIST \<Rightarrow>
             if p_SeccompEnforce (st_profile st) = False
             then (tracer, [spath, ''-mode=whitelist'', tspath])
             else (spath, [''-mode=whitelist'', tspath])
         | PROFILE_SECCOMP_BLACKLIST \<Rightarrow>
             if p_SeccompEnforce (st_profile st) = False
             then (tracer, [spath, ''-mode=blacklist'', tspath])
             else (spath, [''-mode=blacklist'', tspath])
         | PROFILE_SECCOMP_DISABLED \<Rightarrow> (tspath, []))"

definition launchTerminalServer ::
  "os_env \<Rightarrow> string \<Rightarrow> initState \<Rightarrow> initState \<times> (string + Cmd)" where
  "launchTerminalServer env cname st =
     (let dbArgs = [];
          st2 = logSeccomp ''Enabling seccomp training mode for : %s''
                  ''Enabling seccomp whitelist for: %s''
                  ''Enabling seccomp blacklist for: %s'' st;
          (tspath, tscmdArgs0) =
             seccompTerminalServer st ''/usr/lib/gnome-terminal/gnome-terminal-server'';
          tscmdArgs = tscmdArgs0 @ dbArgs;
          cmd = exec_Command env tspath []
      in case os_StdoutPipe env of
           Some err \<Rightarrow> (logf Warning ''Failed to create stdout pipe: %v'' st2, Inl err)
         | None \<Rightarrow>
        (case os_StderrPipe env of
           Some err \<Rightarrow> (logf Warning ''Failed to create stderr pipe: %v'' st2, Inl err)
         | None \<Rightarrow>
        (let cmd1 = cmd\<lparr>cmd_Credential := Some (sandboxCredential st)\<rparr>;
             cmd2 = cmd1\<lparr>cmd_Env :=
                      (setEnvironOverrides env (cmd_Env cmd1)
                         @ [''PS1=['' @ p_Name (st_profile st) @ ''] $ ''])
                      @ st_launchEnv st\<rparr>
         in case seccompStdin env st cmd2 of
              Inl err \<Rightarrow> (st2, Inl err)
            | Inr cmd3 \<Rightarrow>
           (let cmd4 = cmd3\<lparr>cmd_Args := cmd_Args cmd3 @ tscmdArgs\<rparr>;
                pwd = u_HomeDir (st_user st);
                cmd5 = workingDir env pwd cmd4
            in case os_Start env cmd5 of
                 Inl err \<Rightarrow>
                   (logf Warning ''Failed to start terminal server (%s): %v'' st2, Inl err)
               | Inr pid \<Rightarrow>
                   (addChildProcess cmd5 pid True (emit (EvStart cmd5 pid) st2), Inr cmd5)))))"

text \<open>
  \<^verbatim>\<open>startXpraServer\<close>. Where the source leaves the process with
  \<^verbatim>\<open>os.Exit(1)\<close> the result is \<open>Inl 1\<close>. The task that reads the output
  of xpra runs beside init and is not modelled.
\<close>

definition startXpraServer :: "os_env \<Rightarrow> initState \<Rightarrow> int + initState" where
  "startXpraServer env st =
     (let st1 = logf Info ''xpra work dir is %s'' st
      in case os_XpraNewServer env of
           None \<Rightarrow> Inl 1
         | Some proc \<Rightarrow>
        (case os_StderrPipe env of
           Some err \<Rightarrow> Inl 1
         | None \<Rightarrow>
        (let proc1 = proc\<lparr>cmd_Env := [''HOME='' @ u_HomeDir (st_user st)]\<rparr>;
             proc2 = proc1\<lparr>cmd_Env := setEnvironOverrides env (cmd_Env proc1)\<rparr>;
             groups = [st_gid st]
               @ (case map_of (st_gids st) ''video'' of Some gid \<Rightarrow> [gid] | None \<Rightarrow> [])
               @ (if p_XServerAudioMode (st_profile st) \<noteq> PROFILE_AUDIO_NONE
                  then (case map_of (st_gids st) ''audio'' of Some gid \<Rightarrow> [gid] | None \<Rightarrow> [])
                  else []);
             proc3 = proc2\<lparr>cmd_Credential :=
                       Some \<lparr>cr_Uid = st_uid st, cr_Gid = st_gid st, cr_Groups = groups\<rparr>\<rparr>;
             st2 = logf Info ''Starting xpra server'' st1
         in case os_Start env proc3 of
              Inl err \<Rightarrow> Inr ((logf Warning ''Failed to start xpra server: %v'' st2)\<lparr>st_xpra := True\<rparr>)
            | Inr pid \<Rightarrow> Inr ((emit (EvStart proc3 pid) st2)\<lparr>st_xpra := True\<rparr>))))"

text \<open>
  The working directory of a started child (\<^verbatim>\<open>os/exec\<close>): the \<^verbatim>\<open>Dir\<close> of
  the command, or the working directory of init when \<^verbatim>\<open>Dir\<close> is empty.
\<close>

definition childWorkingDir :: "string \<Rightarrow> Cmd \<Rightarrow> string" where
  "childWorkingDir initcwd cmd = (if cmd_Dir cmd = [] then initcwd else cmd_Dir cmd)"

section \<open>The handlers of the control socket\<close>

datatype ipc_body = OkMsg | ErrorMsg string | PingMsg string

text \<open>
  A handler either answers the request itself (\<^verbatim>\<open>msg.Respond\<close> with a body
  and ancillary file descriptors) or returns an error to the server without
  answering.
\<close>

datatype handler_result = Responded ipc_body "int list" | Failed string



record RunProgramMsg =
  rp_Path :: string
  rp_Pwd :: string
  rp_Args :: "string list"
  rp_NoExec :: bool



definition handlePing :: "string \<Rightarrow> handler_result" where
  "handlePing pingData = Responded (PingMsg pingData) []"

definition handleRunProgram ::
  "os_env \<Rightarrow> RunProgramMsg \<Rightarrow> initState \<Rightarrow> initState \<times> handler_result" where
  "handleRunProgram env rp st =
     (let st1 = logf Info ''Run program message received: %+v'' st;
          (st2, err) =
            (if p_IsSandboxedTerminal (st_profile st1) then
               (case launchTerminalApplication env (rp_Path rp) (rp_Pwd rp) (rp_Args rp)
                       (rp_NoExec rp) st1 of
                  (s, Inl e) \<Rightarrow> (s, Some e)
                | (s, Inr _) \<Rightarrow> (s, None))
             else if rp_NoExec rp = False then
               (case launchApplication env (rp_Path rp) (rp_Pwd rp) (rp_Args rp) st1 of
                  (s, Inl e) \<Rightarrow> (s, Some e)
                | (s, Inr _) \<Rightarrow> (s, None))
             else (st1, None))
      in case err of
           Some e \<Rightarrow> (st2, Responded (ErrorMsg e) [])
         | None \<Rightarrow> (st2, Responded OkMsg []))"





section \<open>Example inputs\<close>

text \<open>Concrete values on which the theorems below are instantiated.\<close>

definition example_profile :: Profile where
  "example_profile =
     \<lparr>p_Name = ''editor'', p_Path = ''/usr/bin/editor'', p_DefaultParams = [],
      p_RejectUserArgs = False, p_AutoShutdown = PROFILE_SHUTDOWN_YES, p_Watchdog = [],
      p_IsSandboxedTerminal = False, p_DConfPath = [], p_NoSysProc = False,
      p_Whitelist = [], p_Blacklist = [], p_SharedFolders = [],
      p_XServerEnabled = False, p_XServerAudioMode = PROFILE_AUDIO_NONE,
      p_SeccompMode = PROFILE_SECCOMP_DISABLED, p_SeccompEnforce = False\<rparr>"

definition example_config :: Config where
  "example_config =
     \<lparr>c_PrefixPath = ''/usr/local'', c_DivertSuffix = [], c_DivertPath = False,
      c_ShellPath = ''/bin/bash'', c_AllowRootShell = False, c_UseFullDev = False\<rparr>"

definition example_state :: initState where
  "example_state =
     \<lparr>st_profile = example_profile, st_config = example_config, st_launchEnv = [],
      st_children = [], st_uid = 1000, st_gid = 1000, st_gids = [(''video'', 44)],
      st_user = \<lparr>u_HomeDir = ''/home/user''\<rparr>, st_display = 0,
      st_ipcServer = True, st_xpra = False, st_shutdownRequested = False,
      st_ephemeral = True, st_effects = []\<rparr>"


definition example_env :: os_env where
  "example_env =
     \<lparr>os_Environ = [''OZ_DEBUG=1'', ''LANG=C''], os_LookPath = (\<lambda>name. None),
      os_Stat = (\<lambda>p. p = ''/home/user''), os_StdoutPipe = None, os_StderrPipe = None,
      os_StdinPipe = None, os_Marshal = None, os_DConf = None, os_PtyOpen = Inr 7,
      os_XpraNewServer = None, os_Start = (\<lambda>cmd. Inr 4242)\<rparr>"



definition example_seccomp_state :: initState where
  "example_seccomp_state =
     example_state\<lparr>st_profile :=
       example_profile\<lparr>p_SeccompMode := PROFILE_SECCOMP_WHITELIST, p_SeccompEnforce := False\<rparr>\<rparr>"

definition example_terminal_state :: initState where
  "example_terminal_state =
     example_state\<lparr>st_profile := example_profile\<lparr>p_IsSandboxedTerminal := True\<rparr>\<rparr>"

definition example_enforce_state :: initState where
  "example_enforce_state =
     example_state\<lparr>st_profile :=
       example_profile\<lparr>p_SeccompMode := PROFILE_SECCOMP_WHITELIST, p_SeccompEnforce := True\<rparr>\<rparr>"





definition example_train_state :: initState where
  "example_train_state =
     example_state\<lparr>st_profile := example_profile\<lparr>p_SeccompMode := PROFILE_SECCOMP_TRAIN\<rparr>\<rparr>"

definition example_fs :: fs_env where
  "example_fs =
     \<lparr>fs_error = (\<lambda>n op. None), fs_resolve = (\<lambda>p. Inr p),
      fs_symlink = (\<lambda>dest symlink. symlink), fs_xpra_dir = ''/home/user/.Xoz/editor''\<rparr>"

definition example_home_item :: WhitelistItem where
  "example_home_item =
     \<lparr>wl_Path = ''${HOME}/.config/x'', wl_Target = [], wl_Symlink = [], wl_ReadOnly = True,
      wl_CanCreate = False, wl_Ignore = False, wl_AllowSetuid = False, wl_Force = False,
      wl_NoFollow = False\<rparr>"

definition example_certs_item :: WhitelistItem where
  "example_certs_item =
     \<lparr>wl_Path = ''/etc/ssl/certs'', wl_Target = [], wl_Symlink = [], wl_ReadOnly = False,
      wl_CanCreate = False, wl_Ignore = False, wl_AllowSetuid = False, wl_Force = False,
      wl_NoFollow = False\<rparr>"

definition example_retargeted_item :: WhitelistItem where
  "example_retargeted_item =
     \<lparr>wl_Path = ''${HOME}/data'', wl_Target = ''/opt/data'', wl_Symlink = [],
      wl_ReadOnly = False, wl_CanCreate = False, wl_Ignore = False, wl_AllowSetuid = False,
      wl_Force = False, wl_NoFollow = False\<rparr>"

definition example_ephemeral_state :: initState where
  "example_ephemeral_state =
     example_state\<lparr>st_profile :=
       example_profile\<lparr>p_Whitelist := [example_home_item, example_certs_item],
                        p_SharedFolders := [''${HOME}/Documents'', ''/srv/shared'']\<rparr>\<rparr>"

definition example_retargeted_state :: initState where
  "example_retargeted_state =
     example_state\<lparr>st_profile := example_profile\<lparr>p_Whitelist := [example_retargeted_item]\<rparr>\<rparr>"

section \<open>Properties of the lexical paths\<close>

lemma split_on_nonempty: "split_on c s \<noteq> []"
  by (induction s) (auto split: list.splits)

lemma split_on_append:
  "split_on c (a @ c # b) = split_on c a @ split_on c b"
proof (induction a)
  case Nil
  show ?case by simp
next
  case (Cons x a)
  obtain w ws where ws: "split_on c a = w # ws"
    using split_on_nonempty [of c a] by (cases "split_on c a") auto
  show ?case using Cons ws by simp
qed

lemma join_with_snoc:
  "join_with sep (xs @ [y]) = (if xs = [] then y else join_with sep xs @ sep @ y)"
  by (induction sep xs rule: join_with.induct) auto

lemma takeWhile_until:
  "(\<And>x. x \<in> set xs \<Longrightarrow> P x) \<Longrightarrow> \<not> P y \<Longrightarrow> takeWhile P (xs @ y # ys) = xs"
  by (induction xs) auto

lemma takeWhile_all:
  "(\<And>x. x \<in> set xs \<Longrightarrow> P x) \<Longrightarrow> takeWhile P xs = xs"
  by (induction xs) auto

lemma path_Base_last_element:
  assumes "name \<noteq> []" and "CHR ''/'' \<notin> set name"
  shows "path_Base (s @ CHR ''/'' # name) = name"
proof -
  obtain x r where r: "rev name = x # r"
    using assms(1) by (cases "rev name") auto
  have x: "x \<noteq> CHR ''/''"
    using assms(2) r by (metis list.set_intros(1) set_rev)
  have tw: "takeWhile (\<lambda>c. c \<noteq> CHR ''/'') (rev name @ CHR ''/'' # rev s) = rev name"
    using assms(2) by (intro takeWhile_until) auto
  have dw: "dropWhile (\<lambda>c. c = CHR ''/'') (rev name @ CHR ''/'' # rev s) = rev name @ CHR ''/'' # rev s"
    using r x by simp
  show ?thesis
    using assms(1) by (simp add: path_Base_def Let_def tw dw)
qed

lemma path_Base_no_slash:
  assumes "name \<noteq> []" and "CHR ''/'' \<notin> set name"
  shows "path_Base name = name"
proof -
  obtain x r where r: "rev name = x # r"
    using assms(1) by (cases "rev name") auto
  have x: "x \<noteq> CHR ''/''"
    using assms(2) r by (metis list.set_intros(1) set_rev)
  have tw: "takeWhile (\<lambda>c. c \<noteq> CHR ''/'') (rev name) = rev name"
    using assms(2) by (intro takeWhile_all) auto
  have dw: "dropWhile (\<lambda>c. c = CHR ''/'') (rev name) = rev name"
    using r x by simp
  show ?thesis
    using assms(1) by (simp add: path_Base_def Let_def tw dw)
qed

text \<open>
  Joining a prefix with the two fixed elements \<open>bin\<close> and a program name
  yields a path whose last element is that program name, whatever the prefix.
\<close>

lemma clean_bin_tail:
  assumes "name \<noteq> []" "name \<noteq> ''.''" "name \<noteq> ''..''" "CHR ''/'' \<notin> set name"
    and q: "q = [] \<or> last q = CHR ''/''"
  shows "\<exists>pre. path_Clean (q @ ''bin/'' @ name) = pre @ ''bin/'' @ name"
proof -
  define rooted where "rooted = (hd (q @ ''bin/'' @ name) = CHR ''/'')"
  have sn: "split_on CHR ''/'' name = [name]"
    using assms(4) by (induction name) auto
  have sp: "\<exists>cs. split_on CHR ''/'' (q @ ''bin/'' @ name) = cs @ [''bin'', name]"
  proof (cases "q = []")
    case True
    have "split_on CHR ''/'' (''bin'' @ CHR ''/'' # name) = [''bin''] @ [name]"
      unfolding split_on_append using sn by simp
    then show ?thesis using True by simp
  next
    case False
    then obtain q' where q': "q = q' @ [CHR ''/'']"
      using q by (metis append_butlast_last_id)
    have "split_on CHR ''/'' ((q' @ CHR ''/'' # ''bin'') @ CHR ''/'' # name)
          = (split_on CHR ''/'' q' @ [''bin'']) @ [name]"
      unfolding split_on_append using sn by simp
    then show ?thesis using q' by simp
  qed
  then obtain cs where cs: "split_on CHR ''/'' (q @ ''bin/'' @ name) = cs @ [''bin'', name]"
    by blast
  define stk where "stk = foldl (clean_step rooted) [] cs"
  have fl: "foldl (clean_step rooted) [] (cs @ [''bin'', name]) = name # ''bin'' # stk"
    using assms by (simp add: stk_def)
  have jn: "join_with ''/'' (rev (name # ''bin'' # stk))
            = (if stk = [] then [] else join_with ''/'' (rev stk) @ ''/'') @ ''bin/'' @ name"
    using join_with_snoc [of "''/''" "rev stk @ [''bin'']" name]
          join_with_snoc [of "''/''" "rev stk" "''bin''"]
    by simp
  have "path_Clean (q @ ''bin/'' @ name)
        = (if rooted then ''/'' else [])
          @ (if stk = [] then [] else join_with ''/'' (rev stk) @ ''/'') @ ''bin/'' @ name"
    unfolding path_Clean_def Let_def rooted_def [symmetric] cs fl jn by simp
  then show ?thesis
    by (metis append.assoc)
qed

lemma path_Base_Join_bin:
  assumes "name \<noteq> []" "name \<noteq> ''.''" "name \<noteq> ''..''" "CHR ''/'' \<notin> set name"
  shows "path_Base (path_Join [prefix, ''bin'', name]) = name"
proof -
  define q where "q = (if prefix = [] then [] else prefix @ ''/'')"
  have q: "q = [] \<or> last q = CHR ''/''" by (simp add: q_def)
  have j: "path_Join [prefix, ''bin'', name] = path_Clean (q @ ''bin/'' @ name)"
    using assms(1) by (simp add: path_Join_def q_def)
  obtain pre where pre: "path_Clean (q @ ''bin/'' @ name) = pre @ ''bin/'' @ name"
    using clean_bin_tail [OF assms q] by blast
  have "path_Base ((pre @ ''bin'') @ CHR ''/'' # name) = name"
    using assms by (intro path_Base_last_element) auto
  then show ?thesis using j pre by simp
qed


section \<open>Properties of the ephemeral filter\<close>

lemma cut_backwards_filter:
  "n \<le> length xs \<Longrightarrow>
     cut_backwards del n xs = filter (\<lambda>x. \<not> del x) (take n xs) @ drop n xs"
proof (induction n arbitrary: xs)
  case 0
  show ?case by simp
next
  case (Suc i)
  have i: "i < length xs" using Suc.prems by simp
  have tk: "take (Suc i) xs = take i xs @ [xs ! i]"
    using i by (simp add: take_Suc_conv_app_nth)
  have dr: "drop i xs = xs ! i # drop (Suc i) xs"
    using i by (simp add: Cons_nth_drop_Suc)
  show ?case
  proof (cases "del (xs ! i)")
    case True
    let ?ys = "take i xs @ drop (Suc i) xs"
    have len: "i \<le> length ?ys" using i by simp
    have t: "take i ?ys = take i xs" using i by simp
    have d: "drop i ?ys = drop (Suc i) xs" using i by simp
    have "cut_backwards del i ?ys = filter (\<lambda>x. \<not> del x) (take i xs) @ drop (Suc i) xs"
      using Suc.IH [OF len] unfolding t d .
    then show ?thesis
      using True by (simp add: tk)
  next
    case False
    have "i \<le> length xs" using i by simp
    from Suc.IH [OF this] show ?thesis
      using False by (simp add: tk dr)
  qed
qed

lemma cut_backwards_all:
  "cut_backwards del (length xs) xs = filter (\<lambda>x. \<not> del x) xs"
  using cut_backwards_filter [of "length xs" xs del] by simp

section \<open>Shutdown is idempotent\<close>

lemma emit_fields [simp]:
  "st_effects (emit e st) = st_effects st @ [e]"
  "st_shutdownRequested (emit e st) = st_shutdownRequested st"
  "st_children (emit e st) = st_children st"
  "st_profile (emit e st) = st_profile st"
  "st_config (emit e st) = st_config st"
  "st_xpra (emit e st) = st_xpra st"
  "st_ipcServer (emit e st) = st_ipcServer st"
  "st_uid (emit e st) = st_uid st"
  "st_gid (emit e st) = st_gid st"
  by (simp_all add: emit_def)

lemma foldl_emit:
  "foldl (\<lambda>s c. emit (f c) s) st cs = st\<lparr>st_effects := st_effects st @ map f cs\<rparr>"
  by (induction cs arbitrary: st) (simp_all add: emit_def)

lemma foldl_emit_if:
  "foldl (\<lambda>s c. if P c then emit (f c) s else s) st cs
     = st\<lparr>st_effects := st_effects st @ map f (filter P cs)\<rparr>"
  by (induction cs arbitrary: st) (simp_all add: emit_def)

lemma shutdownXpra_eq:
  "shutdownXpra xstop st = st\<lparr>st_effects := st_effects st @ xpraStopEvents xstop st\<rparr>"
  by (cases xstop) (simp_all add: shutdownXpra_def xpraStopEvents_def foldl_emit_if emit_def Let_def)

lemma shutdown_eq:
  "shutdown xstop st =
     (if st_shutdownRequested st then st
      else st\<lparr>st_shutdownRequested := True,
              st_effects := st_effects st
                @ map (\<lambda>c. EvSignalInterrupt (ps_pid c)) (childrenVector st)
                @ xpraStopEvents xstop st
                @ (if st_ipcServer st then [EvIpcClose] else [])\<rparr>)"
proof (cases "st_shutdownRequested st")
  case True
  then show ?thesis by (simp add: shutdown_def)
next
  case False
  define st2 where "st2 = foldl (\<lambda>s c. emit (EvSignalInterrupt (ps_pid c)) s)
                           (st\<lparr>st_shutdownRequested := True\<rparr>)
                           (childrenVector (st\<lparr>st_shutdownRequested := True\<rparr>))"
  have st2: "st2 = st\<lparr>st_shutdownRequested := True,
                        st_effects := st_effects st
                          @ map (\<lambda>c. EvSignalInterrupt (ps_pid c)) (childrenVector st)\<rparr>"
    unfolding st2_def foldl_emit by (simp add: childrenVector_def)
  have x: "xpraStopEvents xstop st2 = xpraStopEvents xstop st"
    by (simp add: st2 xpraStopEvents_def)
  have "shutdown xstop st =
          (let st3 = shutdownXpra xstop st2
           in if st_ipcServer st3 then emit EvIpcClose st3 else st3)"
    using False by (simp add: shutdown_def st2_def Let_def)
  also have "\<dots> = st\<lparr>st_shutdownRequested := True,
              st_effects := st_effects st
                @ map (\<lambda>c. EvSignalInterrupt (ps_pid c)) (childrenVector st)
                @ xpraStopEvents xstop st
                @ (if st_ipcServer st then [EvIpcClose] else [])\<rparr>"
    unfolding shutdownXpra_eq x by (simp add: st2 emit_def)
  finally show ?thesis using False by simp
qed

lemma shutdown_requested: "st_shutdownRequested (shutdown xstop st)"
  by (simp add: shutdown_eq)

lemma shutdown_again: "shutdown y (shutdown x st) = shutdown x st"
  using shutdown_requested [of x st] by (simp add: shutdown_def)

lemma shutdown_many:
  "foldl (\<lambda>s x. shutdown x s) (shutdown x st) xs = shutdown x st"
  by (induction xs) (simp_all add: shutdown_again)

text \<open>
  C8. Calling \<open>shutdown\<close> one or more times, whatever the xpra stop command
  answers each time, gives the state of the first call alone: a second call
  changes nothing. The first call on a state that has not been shut down adds
  one interrupt for every entry of the registry \<open>st_children\<close>, sent to the
  process of that entry, then the xpra stop (when an xpra server is set) and
  then the close of the IPC server (when it is set). Among the events of all
  the calls together, a process is interrupted as many times as it is
  registered (not at all when the shutdown had been requested before), and
  the stop and the close occur at most once.
\<close>

theorem shutdown_idempotent:
  "foldl (\<lambda>s x. shutdown x s) st (x # xs) = shutdown x st
   \<and> shutdown y (shutdown x st) = shutdown x st
   \<and> st_effects (shutdown x st) =
       (if st_shutdownRequested st then st_effects st
        else st_effects st
               @ map (\<lambda>(pid, c). EvSignalInterrupt (ps_pid c)) (st_children st)
               @ xpraStopEvents x st
               @ (if st_ipcServer st then [EvIpcClose] else []))
   \<and> count_list (drop (length (st_effects st))
                    (st_effects (foldl (\<lambda>s x. shutdown x s) st (x # xs))))
         (EvSignalInterrupt p)
       = (if st_shutdownRequested st then 0
          else count_list (map (\<lambda>(pid, c). ps_pid c) (st_children st)) p)
   \<and> count_list (drop (length (st_effects st))
                    (st_effects (foldl (\<lambda>s x. shutdown x s) st (x # xs)))) EvIpcClose \<le> 1
   \<and> count_list (drop (length (st_effects st))
                    (st_effects (foldl (\<lambda>s x. shutdown x s) st (x # xs))))
         (EvXpraStop (st_uid st) (st_gid st)) \<le> 1"
proof -
  have many: "foldl (\<lambda>s x. shutdown x s) st (x # xs) = shutdown x st"
    by (simp add: shutdown_many)
  have cv: "map (\<lambda>c. EvSignalInterrupt (ps_pid c)) (childrenVector st)
              = map (\<lambda>(pid, c). EvSignalInterrupt (ps_pid c)) (st_children st)"
    by (simp add: childrenVector_def case_prod_unfold comp_def)
  have eff: "st_effects (shutdown x st) =
       (if st_shutdownRequested st then st_effects st
        else st_effects st
               @ map (\<lambda>(pid, c). EvSignalInterrupt (ps_pid c)) (st_children st)
               @ xpraStopEvents x st
               @ (if st_ipcServer st then [EvIpcClose] else []))"
    unfolding cv [symmetric] by (simp add: shutdown_eq)
  have c1: "count_list (map (\<lambda>(pid, c). EvSignalInterrupt (ps_pid c)) cs) e = 0"
    if "e = EvIpcClose \<or> e = EvXpraStop u g" for cs :: "(int \<times> procState) list" and e u g
    using that by (induction cs) auto
  have c2: "count_list (map (\<lambda>line. EvLog Debug ''(xpra stop) %s'') ls) e = 0"
    if "e = EvIpcClose \<or> e = EvXpraStop u g \<or> e = EvSignalInterrupt q"
    for ls :: "string list" and e u g q
    using that by (induction ls) auto
  have c3: "count_list (map (\<lambda>(pid, c). EvSignalInterrupt (ps_pid c)) cs) (EvSignalInterrupt p)
              = count_list (map (\<lambda>(pid, c). ps_pid c) cs) p"
    for cs :: "(int \<times> procState) list"
    by (induction cs) auto
  have x0: "count_list (xpraStopEvents x st) (EvSignalInterrupt p) = 0"
    by (cases x) (simp_all add: xpraStopEvents_def c2)
  have x1: "count_list (xpraStopEvents x st) EvIpcClose = 0"
    by (cases x) (simp_all add: xpraStopEvents_def c2)
  have x2: "count_list (xpraStopEvents x st) (EvXpraStop (st_uid st) (st_gid st)) \<le> 1"
    by (cases x) (simp_all add: xpraStopEvents_def c2)
  have g: "count_list (drop (length (st_effects st)) (st_effects (shutdown x st)))
             (EvSignalInterrupt p)
           = (if st_shutdownRequested st then 0
              else count_list (map (\<lambda>(pid, c). ps_pid c) (st_children st)) p)"
    unfolding eff using x0 by (simp add: c3)
  have i: "count_list (drop (length (st_effects st)) (st_effects (shutdown x st))) EvIpcClose \<le> 1"
    unfolding eff using x1 by (simp add: c1)
  have s: "count_list (drop (length (st_effects st)) (st_effects (shutdown x st)))
             (EvXpraStop (st_uid st) (st_gid st)) \<le> 1"
    unfolding eff using x2 by (simp add: c1)
  show ?thesis
    unfolding many using shutdown_again eff g i s by blast
qed

section \<open>The child-exit policy\<close>



lemma getProcessExists_iff:
  "getProcessExists procs pnames \<longleftrightarrow>
     (\<exists>pr. Some pr \<in> set procs
          \<and> path_Base (takeWhile (\<lambda>prb. prb \<noteq> CHR 0x00) pr) \<noteq> ''.''
          \<and> path_Base (takeWhile (\<lambda>prb. prb \<noteq> CHR 0x00) pr) \<in> set pnames)"
  by (induction procs pnames rule: getProcessExists.induct) (auto simp: Let_def)






section \<open>What the launchers start\<close>

lemma seccompStdin_fields:
  "seccompStdin env st c = Inr c' \<Longrightarrow>
     cmd_Path c' = cmd_Path c \<and> cmd_Args c' = cmd_Args c \<and> cmd_Env c' = cmd_Env c
     \<and> cmd_Dir c' = cmd_Dir c \<and> cmd_Credential c' = cmd_Credential c"
  by (auto simp: seccompStdin_def split: if_splits option.splits)

lemma workingDir_fields [simp]:
  "cmd_Path (workingDir env pwd c) = cmd_Path c"
  "cmd_Args (workingDir env pwd c) = cmd_Args c"
  "cmd_Env (workingDir env pwd c) = cmd_Env c"
  "cmd_Credential (workingDir env pwd c) = cmd_Credential c"
  "cmd_Stdin (workingDir env pwd c) = cmd_Stdin c"
  "cmd_Dir (workingDir env pwd c) = (if os_Stat env pwd then pwd else cmd_Dir c)"
  by (simp_all add: workingDir_def)

lemma exec_Command_fields [simp]:
  "cmd_Args (exec_Command env name arg) = name # arg"
  "cmd_Env (exec_Command env name arg) = []"
  "cmd_Dir (exec_Command env name arg) = []"
  "cmd_Credential (exec_Command env name arg) = None"
  "cmd_Stdin (exec_Command env name arg) = StdinNone"
  by (simp_all add: exec_Command_def)

lemma exec_Command_path:
  "cmd_Path (exec_Command env name arg) =
     (if path_Base name = name
      then (case os_LookPath env name of Some lp \<Rightarrow> lp | None \<Rightarrow> name) else name)"
  by (simp add: exec_Command_def)

lemma launchApplication_started:
  assumes "launchApplication env cpath0 pwd0 cmdArgs0 st = (st', Inr cmd)"
  shows "\<exists>cmd3 pid.
           seccompStdin env st
             ((exec_Command env (fst (seccompApplication st (divertedPath st cpath0)
                                        (policyArgs st cmdArgs0))) [])
                \<lparr>cmd_Credential := Some (sandboxCredential st),
                  cmd_Env := setEnvironOverrides env [] @ st_launchEnv st\<rparr>) = Inr cmd3
           \<and> cmd = workingDir env (if pwd0 = [] then u_HomeDir (st_user st) else pwd0)
                     (cmd3\<lparr>cmd_Args := cmd_Args cmd3
                              @ snd (seccompApplication st (divertedPath st cpath0)
                                       (policyArgs st cmdArgs0))\<rparr>)
           \<and> os_Start env cmd = Inr pid
           \<and> os_StdoutPipe env = None \<and> os_StderrPipe env = None
           \<and> st_children st' = AList.update pid \<lparr>ps_cmd = cmd, ps_pid = pid, ps_track = True\<rparr>
                                  (st_children st)
           \<and> EvStart cmd pid \<in> set (st_effects st')"
  using assms unfolding launchApplication_def Let_def
  by (auto split: option.splits sum.splits prod.splits simp: addChildProcess_def logSeccomp_def logRejectUserArgs_def split: SeccompMode.splits if_splits)

lemma launchTerminalApplication_started:
  assumes "launchTerminalApplication env cpath0 pwd0 cmdArgs0 noexec st = (st', Inr cmd)"
  shows "\<exists>pid.
           cmd = workingDir env (if pwd0 = [] then u_HomeDir (st_user st) else pwd0)
                   ((exec_Command env ''/usr/bin/gnome-terminal'' [''--hide-menubar'', ''--''])
                      \<lparr>cmd_Credential := Some (sandboxCredential st),
                        cmd_Env := [PS1_h] @ st_launchEnv st,
                        cmd_Args := [''/usr/bin/gnome-terminal'', ''--hide-menubar'', ''--'']
                          @ (if noexec then [c_ShellPath (st_config st)]
                             else divertedPath st cpath0 # policyArgs st cmdArgs0)\<rparr>)
           \<and> os_Start env cmd = Inr pid
           \<and> st_children st' = AList.update pid \<lparr>ps_cmd = cmd, ps_pid = pid, ps_track = False\<rparr>
                                  (st_children st)
           \<and> EvStart cmd pid \<in> set (st_effects st')"
  using assms unfolding launchTerminalApplication_def Let_def
  by (auto split: option.splits sum.splits prod.splits if_splits
           simp: addChildProcess_def logRejectUserArgs_def)

lemma launchTerminalServer_started:
  assumes "launchTerminalServer env cname st = (st', Inr cmd)"
  shows "\<exists>cmd3 pid.
           seccompStdin env st
             ((exec_Command env (fst (seccompTerminalServer st
                   ''/usr/lib/gnome-terminal/gnome-terminal-server'')) [])
                \<lparr>cmd_Credential := Some (sandboxCredential st),
                  cmd_Env := (setEnvironOverrides env []
                                @ [''PS1=['' @ p_Name (st_profile st) @ ''] $ ''])
                             @ st_launchEnv st\<rparr>) = Inr cmd3
           \<and> cmd = workingDir env (u_HomeDir (st_user st))
                     (cmd3\<lparr>cmd_Args := cmd_Args cmd3
                              @ snd (seccompTerminalServer st
                                       ''/usr/lib/gnome-terminal/gnome-terminal-server'')\<rparr>)
           \<and> os_Start env cmd = Inr pid"
  using assms unfolding launchTerminalServer_def Let_def
  by (auto split: option.splits sum.splits prod.splits if_splits SeccompMode.splits
           simp: addChildProcess_def logSeccomp_def)

lemma setEnvironOverrides_OZ:
  "evar \<in> set (os_Environ env) \<Longrightarrow> HasPrefix evar ''OZ_''
     \<Longrightarrow> evar \<in> set (setEnvironOverrides env e)"
  by (simp add: setEnvironOverrides_def)

lemma launchApplication_env_OZ:
  assumes "launchApplication env cpath0 pwd0 cmdArgs0 st = (st', Inr cmd)"
    and "evar \<in> set (os_Environ env)" and "HasPrefix evar ''OZ_''"
  shows "evar \<in> set (cmd_Env cmd)"
proof -
  from launchApplication_started [OF assms(1)] obtain cmd3 where
    c3: "seccompStdin env st
             ((exec_Command env (fst (seccompApplication st (divertedPath st cpath0)
                                        (policyArgs st cmdArgs0))) [])
                \<lparr>cmd_Credential := Some (sandboxCredential st),
                  cmd_Env := setEnvironOverrides env [] @ st_launchEnv st\<rparr>) = Inr cmd3"
    and c: "cmd = workingDir env (if pwd0 = [] then u_HomeDir (st_user st) else pwd0)
                     (cmd3\<lparr>cmd_Args := cmd_Args cmd3
                              @ snd (seccompApplication st (divertedPath st cpath0)
                                       (policyArgs st cmdArgs0))\<rparr>)"
    by blast
  have "cmd_Env cmd = setEnvironOverrides env [] @ st_launchEnv st"
    using seccompStdin_fields [OF c3] by (simp add: c)
  then show ?thesis
    using setEnvironOverrides_OZ [OF assms(2,3)] by simp
qed

lemma launchTerminalServer_env_OZ:
  assumes "launchTerminalServer env cname st = (st', Inr cmd)"
    and "evar \<in> set (os_Environ env)" and "HasPrefix evar ''OZ_''"
  shows "evar \<in> set (cmd_Env cmd)"
proof -
  from launchTerminalServer_started [OF assms(1)] obtain cmd3 where
    c3: "seccompStdin env st
             ((exec_Command env (fst (seccompTerminalServer st
                   ''/usr/lib/gnome-terminal/gnome-terminal-server'')) [])
                \<lparr>cmd_Credential := Some (sandboxCredential st),
                  cmd_Env := (setEnvironOverrides env []
                                @ [''PS1=['' @ p_Name (st_profile st) @ ''] $ ''])
                             @ st_launchEnv st\<rparr>) = Inr cmd3"
    and c: "cmd = workingDir env (u_HomeDir (st_user st))
                     (cmd3\<lparr>cmd_Args := cmd_Args cmd3
                              @ snd (seccompTerminalServer st
                                       ''/usr/lib/gnome-terminal/gnome-terminal-server'')\<rparr>)"
    by blast
  have "cmd_Env cmd = (setEnvironOverrides env []
                                @ [''PS1=['' @ p_Name (st_profile st) @ ''] $ ''])
                             @ st_launchEnv st"
    using seccompStdin_fields [OF c3] by (simp add: c)
  then show ?thesis
    using setEnvironOverrides_OZ [OF assms(2,3)] by simp
qed

lemma startXpraServer_env_OZ:
  assumes "startXpraServer env st = Inr st'"
    and "EvStart cmd pid \<in> set (st_effects st')"
    and "EvStart cmd pid \<notin> set (st_effects st)"
    and "evar \<in> set (os_Environ env)" and "HasPrefix evar ''OZ_''"
  shows "evar \<in> set (cmd_Env cmd)"
  using assms unfolding startXpraServer_def Let_def
  by (auto split: option.splits sum.splits if_splits simp: setEnvironOverrides_def emit_def)

text \<open>
  C6. The plain launcher, the terminal server and the xpra server pass the
  \<open>OZ_\<close> variables of init on (the three lemmas above). The terminal
  application launcher does not call \<open>setEnvironOverrides\<close>: with
  \<open>OZ_DEBUG=1\<close> in the environment of init and an empty launch environment,
  the environment of the started terminal holds the prompt alone.
\<close>

theorem launchTerminalApplication_drops_OZ:
  "HasPrefix ''OZ_DEBUG=1'' ''OZ_''
   \<and> ''OZ_DEBUG=1'' \<in> set (os_Environ example_env)
   \<and> map_sum id cmd_Env
        (snd (launchTerminalApplication example_env [] [] [''a.txt''] False example_terminal_state))
      = Inr [PS1_h]
   \<and> ''OZ_DEBUG=1'' \<notin> set [PS1_h]"
  by (simp add: launchTerminalApplication_def Let_def example_env_def example_terminal_state_def
        example_state_def example_profile_def example_config_def logRejectUserArgs_def
        policyArgs_def divertedPath_def workingDir_def exec_Command_def addChildProcess_def
        sandboxCredential_def HasPrefix_def PS1_h_def emit_def)

section \<open>Seccomp wrapping\<close>

lemma path_Join_bin_not_bare:
  assumes "name \<noteq> []" "name \<noteq> ''.''" "name \<noteq> ''..''" "CHR ''/'' \<notin> set name"
  shows "path_Base (path_Join [prefix, ''bin'', name]) \<noteq> path_Join [prefix, ''bin'', name]"
proof -
  define q where "q = (if prefix = [] then [] else prefix @ ''/'')"
  have q: "q = [] \<or> last q = CHR ''/''" by (simp add: q_def)
  have j: "path_Join [prefix, ''bin'', name] = path_Clean (q @ ''bin/'' @ name)"
    using assms(1) by (simp add: path_Join_def q_def)
  obtain pre where pre: "path_Clean (q @ ''bin/'' @ name) = pre @ ''bin/'' @ name"
    using clean_bin_tail [OF assms q] by blast
  have "length (path_Join [prefix, ''bin'', name]) > length name"
    unfolding j pre by simp
  then show ?thesis
    using path_Base_Join_bin [OF assms, of prefix] by auto
qed

lemma exec_Command_wrapper:
  assumes "name \<noteq> []" "name \<noteq> ''.''" "name \<noteq> ''..''" "CHR ''/'' \<notin> set name"
  shows "cmd_Path (exec_Command env (path_Join [prefix, ''bin'', name]) arg)
           = path_Join [prefix, ''bin'', name]"
  using path_Join_bin_not_bare [OF assms, of prefix] by (simp add: exec_Command_path)

lemma launchApplication_path_args:
  assumes "launchApplication env cpath0 pwd0 cmdArgs0 st = (st', Inr cmd)"
  shows "cmd_Path cmd = cmd_Path (exec_Command env
                          (fst (seccompApplication st (divertedPath st cpath0)
                                  (policyArgs st cmdArgs0))) [])
       \<and> cmd_Args cmd = fst (seccompApplication st (divertedPath st cpath0)
                                  (policyArgs st cmdArgs0))
                         # snd (seccompApplication st (divertedPath st cpath0)
                                  (policyArgs st cmdArgs0))
       \<and> cmd_Dir cmd = (if os_Stat env (if pwd0 = [] then u_HomeDir (st_user st) else pwd0)
                        then (if pwd0 = [] then u_HomeDir (st_user st) else pwd0) else [])"
proof -
  from launchApplication_started [OF assms(1)] obtain cmd3 where
    c3: "seccompStdin env st
             ((exec_Command env (fst (seccompApplication st (divertedPath st cpath0)
                                        (policyArgs st cmdArgs0))) [])
                \<lparr>cmd_Credential := Some (sandboxCredential st),
                  cmd_Env := setEnvironOverrides env [] @ st_launchEnv st\<rparr>) = Inr cmd3"
    and c: "cmd = workingDir env (if pwd0 = [] then u_HomeDir (st_user st) else pwd0)
                     (cmd3\<lparr>cmd_Args := cmd_Args cmd3
                              @ snd (seccompApplication st (divertedPath st cpath0)
                                       (policyArgs st cmdArgs0))\<rparr>)"
    by blast
  show ?thesis
    using seccompStdin_fields [OF c3] by (simp add: c)
qed

text \<open>
  The program and the arguments of a process started by \<open>launchApplication\<close>,
  branch by branch of its seccomp switch.
\<close>

lemma launchApplication_argv_exact:
  assumes "launchApplication env cpath pwd args st = (st', Inr cmd)"
  shows "(let target = divertedPath st cpath;
              a = policyArgs st args;
              spath = path_Join [c_PrefixPath (st_config st), ''bin'', ''oz-seccomp''];
              tracer = path_Join [c_PrefixPath (st_config st), ''bin'', ''oz-seccomp-tracer'']
          in path_Base spath = ''oz-seccomp''
           \<and> path_Base tracer = ''oz-seccomp-tracer''
           \<and> (case p_SeccompMode (st_profile st) of
                PROFILE_SECCOMP_TRAIN \<Rightarrow>
                  cmd_Path cmd = tracer
                  \<and> cmd_Args cmd = tracer # [spath, ''-mode=whitelist'', target] @ a
              | PROFILE_SECCOMP_WHITELIST \<Rightarrow>
                  if p_SeccompEnforce (st_profile st)
                  then cmd_Path cmd = spath
                     \<and> cmd_Args cmd = spath # [''-mode=whitelist'', target] @ a
                  else cmd_Path cmd = tracer
                     \<and> cmd_Args cmd
                         = tracer # [''-r'', ''-p'', ''-'', spath, ''-mode=whitelist'', target] @ a
              | PROFILE_SECCOMP_BLACKLIST \<Rightarrow>
                  if p_SeccompEnforce (st_profile st)
                  then cmd_Path cmd = spath
                     \<and> cmd_Args cmd = spath # [''-mode=blacklist'', target] @ a
                  else cmd_Path cmd = tracer
                     \<and> cmd_Args cmd = tracer # [spath, ''-mode=blacklist'', target] @ a
              | PROFILE_SECCOMP_DISABLED \<Rightarrow>
                  cmd_Args cmd = target # a
                  \<and> cmd_Path cmd =
                      (if path_Base target = target
                       then (case os_LookPath env target of Some lp \<Rightarrow> lp | None \<Rightarrow> target)
                       else target)))"
proof -
  have b1: "path_Base (path_Join [c_PrefixPath (st_config st), ''bin'', ''oz-seccomp''])
              = ''oz-seccomp''"
    by (rule path_Base_Join_bin) simp_all
  have b2: "path_Base (path_Join [c_PrefixPath (st_config st), ''bin'', ''oz-seccomp-tracer''])
              = ''oz-seccomp-tracer''"
    by (rule path_Base_Join_bin) simp_all
  have w1: "cmd_Path (exec_Command env
              (path_Join [c_PrefixPath (st_config st), ''bin'', ''oz-seccomp'']) [])
            = path_Join [c_PrefixPath (st_config st), ''bin'', ''oz-seccomp'']"
    by (rule exec_Command_wrapper) simp_all
  have w2: "cmd_Path (exec_Command env
              (path_Join [c_PrefixPath (st_config st), ''bin'', ''oz-seccomp-tracer'']) [])
            = path_Join [c_PrefixPath (st_config st), ''bin'', ''oz-seccomp-tracer'']"
    by (rule exec_Command_wrapper) simp_all
  note pa = launchApplication_path_args [OF assms]
  show ?thesis
  proof (cases "p_SeccompMode (st_profile st)")
    case PROFILE_SECCOMP_TRAIN
    then show ?thesis
      using pa b1 b2 w2 by (simp add: seccompApplication_def Let_def)
  next
    case PROFILE_SECCOMP_WHITELIST
    then show ?thesis
      using pa b1 b2 w1 w2 by (simp add: seccompApplication_def Let_def)
  next
    case PROFILE_SECCOMP_BLACKLIST
    then show ?thesis
      using pa b1 b2 w1 w2 by (simp add: seccompApplication_def Let_def)
  next
    case PROFILE_SECCOMP_DISABLED
    then show ?thesis
      using pa b1 b2 by (simp add: seccompApplication_def Let_def exec_Command_path)
  qed
qed

lemma example_tracer:
  "path_Join [''/usr/local'', ''bin'', ''oz-seccomp-tracer''] = ''/usr/local/bin/oz-seccomp-tracer''"
  by (simp add: path_Join_def path_Clean_def)

lemma example_seccomp:
  "path_Join [''/usr/local'', ''bin'', ''oz-seccomp''] = ''/usr/local/bin/oz-seccomp''"
  by (simp add: path_Join_def path_Clean_def)

lemmas launch_eval =
  launchApplication_def launchTerminalApplication_def Let_def example_env_def
  example_state_def example_profile_def example_config_def logRejectUserArgs_def
  logSeccomp_def seccompApplication_def seccompStdin_def
  policyArgs_def divertedPath_def workingDir_def exec_Command_def addChildProcess_def
  sandboxCredential_def setEnvironOverrides_def HasPrefix_def emit_def
  example_tracer example_seccomp

lemmas terminal_eval =
  launchTerminalServer_def seccompTerminalServer_def

lemma launchTerminalServer_path_args:
  assumes "launchTerminalServer env cname st = (st', Inr cmd)"
  shows "cmd_Path cmd = cmd_Path (exec_Command env
                          (fst (seccompTerminalServer st
                                  ''/usr/lib/gnome-terminal/gnome-terminal-server'')) [])
       \<and> cmd_Args cmd = fst (seccompTerminalServer st
                                  ''/usr/lib/gnome-terminal/gnome-terminal-server'')
                         # snd (seccompTerminalServer st
                                  ''/usr/lib/gnome-terminal/gnome-terminal-server'')"
proof -
  from launchTerminalServer_started [OF assms] obtain cmd3 where
    c3: "seccompStdin env st
             ((exec_Command env (fst (seccompTerminalServer st
                   ''/usr/lib/gnome-terminal/gnome-terminal-server'')) [])
                \<lparr>cmd_Credential := Some (sandboxCredential st),
                  cmd_Env := (setEnvironOverrides env []
                                @ [''PS1=['' @ p_Name (st_profile st) @ ''] $ ''])
                             @ st_launchEnv st\<rparr>) = Inr cmd3"
    and c: "cmd = workingDir env (u_HomeDir (st_user st))
                     (cmd3\<lparr>cmd_Args := cmd_Args cmd3
                              @ snd (seccompTerminalServer st
                                       ''/usr/lib/gnome-terminal/gnome-terminal-server'')\<rparr>)"
    by blast
  show ?thesis
    using seccompStdin_fields [OF c3] by (simp add: c)
qed

lemma terminal_server_not_bare:
  "path_Base ''/usr/lib/gnome-terminal/gnome-terminal-server''
     \<noteq> ''/usr/lib/gnome-terminal/gnome-terminal-server''"
  by (simp add: path_Base_def)

text \<open>
  The program and the arguments of a process started by
  \<open>launchTerminalServer\<close>, branch by branch of its seccomp switch.
\<close>

lemma launchTerminalServer_argv_exact:
  assumes "launchTerminalServer env cname st = (st', Inr cmd)"
  shows "(let target = ''/usr/lib/gnome-terminal/gnome-terminal-server'';
              spath = path_Join [c_PrefixPath (st_config st), ''bin'', ''oz-seccomp''];
              tracer = path_Join [c_PrefixPath (st_config st), ''bin'', ''oz-seccomp-tracer'']
          in case p_SeccompMode (st_profile st) of
                PROFILE_SECCOMP_TRAIN \<Rightarrow>
                  cmd_Path cmd = tracer
                  \<and> cmd_Args cmd = [tracer, spath, ''-mode=whitelist'', target]
              | PROFILE_SECCOMP_WHITELIST \<Rightarrow>
                  if p_SeccompEnforce (st_profile st)
                  then cmd_Path cmd = spath
                     \<and> cmd_Args cmd = [spath, ''-mode=whitelist'', target]
                  else cmd_Path cmd = tracer
                     \<and> cmd_Args cmd = [tracer, spath, ''-mode=whitelist'', target]
              | PROFILE_SECCOMP_BLACKLIST \<Rightarrow>
                  if p_SeccompEnforce (st_profile st)
                  then cmd_Path cmd = spath
                     \<and> cmd_Args cmd = [spath, ''-mode=blacklist'', target]
                  else cmd_Path cmd = tracer
                     \<and> cmd_Args cmd = [tracer, spath, ''-mode=blacklist'', target]
              | PROFILE_SECCOMP_DISABLED \<Rightarrow>
                  cmd_Args cmd = [target] \<and> cmd_Path cmd = target)"
proof -
  have w1: "cmd_Path (exec_Command env
              (path_Join [c_PrefixPath (st_config st), ''bin'', ''oz-seccomp'']) [])
            = path_Join [c_PrefixPath (st_config st), ''bin'', ''oz-seccomp'']"
    by (rule exec_Command_wrapper) simp_all
  have w2: "cmd_Path (exec_Command env
              (path_Join [c_PrefixPath (st_config st), ''bin'', ''oz-seccomp-tracer'']) [])
            = path_Join [c_PrefixPath (st_config st), ''bin'', ''oz-seccomp-tracer'']"
    by (rule exec_Command_wrapper) simp_all
  have w3: "cmd_Path (exec_Command env ''/usr/lib/gnome-terminal/gnome-terminal-server'' [])
            = ''/usr/lib/gnome-terminal/gnome-terminal-server''"
    using terminal_server_not_bare by (simp add: exec_Command_path)
  note pa = launchTerminalServer_path_args [OF assms]
  show ?thesis
  proof (cases "p_SeccompMode (st_profile st)")
    case PROFILE_SECCOMP_TRAIN
    then show ?thesis
      using pa w2 by (simp add: seccompTerminalServer_def Let_def)
  next
    case PROFILE_SECCOMP_WHITELIST
    then show ?thesis
      using pa w1 w2 by (simp add: seccompTerminalServer_def Let_def)
  next
    case PROFILE_SECCOMP_BLACKLIST
    then show ?thesis
      using pa w1 w2 by (simp add: seccompTerminalServer_def Let_def)
  next
    case PROFILE_SECCOMP_DISABLED
    then show ?thesis
      using pa w3 by (simp add: seccompTerminalServer_def Let_def)
  qed
qed

text \<open>
  C3 (amended). With \<open>spath\<close> and \<open>tracer\<close> the paths of \<open>oz-seccomp\<close> and
  \<open>oz-seccomp-tracer\<close> under the prefix path (their base names are these two
  names for every prefix), a process started by \<open>launchApplication\<close> (target:
  the diverted path, \<open>a\<close>: the arguments after the argument policy) or by
  \<open>launchTerminalServer\<close> (target: the terminal server, no further
  arguments) is, by seccomp mode:
  \<^item> train: the tracer, with \<open>spath\<close>, \<open>-mode=whitelist\<close>, the target and
    \<open>a\<close> after it;
  \<^item> whitelist or blacklist without enforcement: the tracer; in the terminal
    server and in the blacklist branch of the application launcher the
    arguments after it are exactly \<open>spath\<close>, \<open>-mode=\<close> the mode, the target
    and \<open>a\<close>; in the whitelist branch of the application launcher they end
    with these (what precedes them is not stated);
  \<^item> whitelist or blacklist with enforcement: \<open>spath\<close> with \<open>-mode=\<close> the
    mode, the target and \<open>a\<close>;
  \<^item> disabled: the target itself with \<open>a\<close>, no wrapper.
\<close>

theorem seccomp_wrapping:
  "(launchApplication env cpath pwd args st = (st', Inr cmd) \<longrightarrow>
      (let target = divertedPath st cpath;
           a = policyArgs st args;
           spath = path_Join [c_PrefixPath (st_config st), ''bin'', ''oz-seccomp''];
           tracer = path_Join [c_PrefixPath (st_config st), ''bin'', ''oz-seccomp-tracer'']
       in case p_SeccompMode (st_profile st) of
            PROFILE_SECCOMP_TRAIN \<Rightarrow>
              cmd_Path cmd = tracer
              \<and> cmd_Args cmd = tracer # [spath, ''-mode=whitelist'', target] @ a
          | PROFILE_SECCOMP_WHITELIST \<Rightarrow>
              if p_SeccompEnforce (st_profile st)
              then cmd_Path cmd = spath
                 \<and> cmd_Args cmd = spath # [''-mode=whitelist'', target] @ a
              else cmd_Path cmd = tracer
                 \<and> (\<exists>opts. cmd_Args cmd
                       = tracer # opts @ [spath, ''-mode=whitelist'', target] @ a)
          | PROFILE_SECCOMP_BLACKLIST \<Rightarrow>
              if p_SeccompEnforce (st_profile st)
              then cmd_Path cmd = spath
                 \<and> cmd_Args cmd = spath # [''-mode=blacklist'', target] @ a
              else cmd_Path cmd = tracer
                 \<and> cmd_Args cmd = tracer # [spath, ''-mode=blacklist'', target] @ a
          | PROFILE_SECCOMP_DISABLED \<Rightarrow>
              cmd_Args cmd = target # a
              \<and> cmd_Path cmd =
                  (if path_Base target = target
                   then (case os_LookPath env target of Some lp \<Rightarrow> lp | None \<Rightarrow> target)
                   else target)))
   \<and> (launchTerminalServer env cname st = (st'', Inr tcmd) \<longrightarrow>
      (let target = ''/usr/lib/gnome-terminal/gnome-terminal-server'';
           spath = path_Join [c_PrefixPath (st_config st), ''bin'', ''oz-seccomp''];
           tracer = path_Join [c_PrefixPath (st_config st), ''bin'', ''oz-seccomp-tracer'']
       in case p_SeccompMode (st_profile st) of
            PROFILE_SECCOMP_TRAIN \<Rightarrow>
              cmd_Path tcmd = tracer
              \<and> cmd_Args tcmd = [tracer, spath, ''-mode=whitelist'', target]
          | PROFILE_SECCOMP_WHITELIST \<Rightarrow>
              if p_SeccompEnforce (st_profile st)
              then cmd_Path tcmd = spath
                 \<and> cmd_Args tcmd = [spath, ''-mode=whitelist'', target]
              else cmd_Path tcmd = tracer
                 \<and> cmd_Args tcmd = [tracer, spath, ''-mode=whitelist'', target]
          | PROFILE_SECCOMP_BLACKLIST \<Rightarrow>
              if p_SeccompEnforce (st_profile st)
              then cmd_Path tcmd = spath
                 \<and> cmd_Args tcmd = [spath, ''-mode=blacklist'', target]
              else cmd_Path tcmd = tracer
                 \<and> cmd_Args tcmd = [tracer, spath, ''-mode=blacklist'', target]
          | PROFILE_SECCOMP_DISABLED \<Rightarrow>
              cmd_Args tcmd = [target] \<and> cmd_Path tcmd = target))
   \<and> path_Base (path_Join [c_PrefixPath (st_config st), ''bin'', ''oz-seccomp''])
       = ''oz-seccomp''
   \<and> path_Base (path_Join [c_PrefixPath (st_config st), ''bin'', ''oz-seccomp-tracer''])
       = ''oz-seccomp-tracer''"
proof (intro conjI impI)
  assume l: "launchApplication env cpath pwd args st = (st', Inr cmd)"
  note ex = launchApplication_argv_exact [OF l]
  have opts: "\<exists>opts. tr # [''-r'', ''-p'', ''-'', sp, m, tg] @ a = tr # opts @ [sp, m, tg] @ a"
    for tr sp m tg :: string and a
    by (rule exI [of _ "[''-r'', ''-p'', ''-'']"]) simp
  show "let target = divertedPath st cpath;
           a = policyArgs st args;
           spath = path_Join [c_PrefixPath (st_config st), ''bin'', ''oz-seccomp''];
           tracer = path_Join [c_PrefixPath (st_config st), ''bin'', ''oz-seccomp-tracer'']
       in case p_SeccompMode (st_profile st) of
            PROFILE_SECCOMP_TRAIN \<Rightarrow>
              cmd_Path cmd = tracer
              \<and> cmd_Args cmd = tracer # [spath, ''-mode=whitelist'', target] @ a
          | PROFILE_SECCOMP_WHITELIST \<Rightarrow>
              if p_SeccompEnforce (st_profile st)
              then cmd_Path cmd = spath
                 \<and> cmd_Args cmd = spath # [''-mode=whitelist'', target] @ a
              else cmd_Path cmd = tracer
                 \<and> (\<exists>opts. cmd_Args cmd
                       = tracer # opts @ [spath, ''-mode=whitelist'', target] @ a)
          | PROFILE_SECCOMP_BLACKLIST \<Rightarrow>
              if p_SeccompEnforce (st_profile st)
              then cmd_Path cmd = spath
                 \<and> cmd_Args cmd = spath # [''-mode=blacklist'', target] @ a
              else cmd_Path cmd = tracer
                 \<and> cmd_Args cmd = tracer # [spath, ''-mode=blacklist'', target] @ a
          | PROFILE_SECCOMP_DISABLED \<Rightarrow>
              cmd_Args cmd = target # a
              \<and> cmd_Path cmd =
                  (if path_Base target = target
                   then (case os_LookPath env target of Some lp \<Rightarrow> lp | None \<Rightarrow> target)
                   else target)"
  proof (cases "p_SeccompMode (st_profile st)")
    case PROFILE_SECCOMP_TRAIN
    then show ?thesis using ex by (simp add: Let_def)
  next
    case PROFILE_SECCOMP_WHITELIST
    show ?thesis
    proof (cases "p_SeccompEnforce (st_profile st)")
      case True
      then show ?thesis using ex PROFILE_SECCOMP_WHITELIST by (simp add: Let_def)
    next
      case False
      then have "cmd_Path cmd
                   = path_Join [c_PrefixPath (st_config st), ''bin'', ''oz-seccomp-tracer'']"
        and "cmd_Args cmd
               = path_Join [c_PrefixPath (st_config st), ''bin'', ''oz-seccomp-tracer'']
                 # [''-r'', ''-p'', ''-'',
                    path_Join [c_PrefixPath (st_config st), ''bin'', ''oz-seccomp''],
                    ''-mode=whitelist'', divertedPath st cpath] @ policyArgs st args"
        using ex PROFILE_SECCOMP_WHITELIST by (simp_all add: Let_def)
      then show ?thesis
        using False PROFILE_SECCOMP_WHITELIST opts by (simp add: Let_def)
    qed
  next
    case PROFILE_SECCOMP_BLACKLIST
    then show ?thesis using ex by (simp add: Let_def)
  next
    case PROFILE_SECCOMP_DISABLED
    then show ?thesis using ex by (simp add: Let_def)
  qed
next
  assume l: "launchTerminalServer env cname st = (st'', Inr tcmd)"
  show "let target = ''/usr/lib/gnome-terminal/gnome-terminal-server'';
           spath = path_Join [c_PrefixPath (st_config st), ''bin'', ''oz-seccomp''];
           tracer = path_Join [c_PrefixPath (st_config st), ''bin'', ''oz-seccomp-tracer'']
       in case p_SeccompMode (st_profile st) of
            PROFILE_SECCOMP_TRAIN \<Rightarrow>
              cmd_Path tcmd = tracer
              \<and> cmd_Args tcmd = [tracer, spath, ''-mode=whitelist'', target]
          | PROFILE_SECCOMP_WHITELIST \<Rightarrow>
              if p_SeccompEnforce (st_profile st)
              then cmd_Path tcmd = spath
                 \<and> cmd_Args tcmd = [spath, ''-mode=whitelist'', target]
              else cmd_Path tcmd = tracer
                 \<and> cmd_Args tcmd = [tracer, spath, ''-mode=whitelist'', target]
          | PROFILE_SECCOMP_BLACKLIST \<Rightarrow>
              if p_SeccompEnforce (st_profile st)
              then cmd_Path tcmd = spath
                 \<and> cmd_Args tcmd = [spath, ''-mode=blacklist'', target]
              else cmd_Path tcmd = tracer
                 \<and> cmd_Args tcmd = [tracer, spath, ''-mode=blacklist'', target]
          | PROFILE_SECCOMP_DISABLED \<Rightarrow>
              cmd_Args tcmd = [target] \<and> cmd_Path tcmd = target"
    by (rule launchTerminalServer_argv_exact [OF l])
next
  show "path_Base (path_Join [c_PrefixPath (st_config st), ''bin'', ''oz-seccomp''])
       = ''oz-seccomp''"
    by (rule path_Base_Join_bin) simp_all
next
  show "path_Base (path_Join [c_PrefixPath (st_config st), ''bin'', ''oz-seccomp-tracer''])
       = ''oz-seccomp-tracer''"
    by (rule path_Base_Join_bin) simp_all
qed

text \<open>
  The theorem at two concrete launches under the prefix \<open>/usr/local\<close>: the
  application in mode whitelist with enforcement, and the terminal server in
  mode whitelist without enforcement.
\<close>

theorem seccomp_wrapping_witness:
  "\<exists>st' cmd st'' tcmd.
      launchApplication example_env [] [] [''a.txt''] example_enforce_state = (st', Inr cmd)
      \<and> path_Base (cmd_Path cmd) = ''oz-seccomp''
      \<and> cmd_Args cmd = [''/usr/local/bin/oz-seccomp'', ''-mode=whitelist'',
                         ''/usr/bin/editor'', ''a.txt'']
      \<and> launchTerminalServer example_env ''editor'' example_seccomp_state = (st'', Inr tcmd)
      \<and> path_Base (cmd_Path tcmd) = ''oz-seccomp-tracer''
      \<and> cmd_Args tcmd = [''/usr/local/bin/oz-seccomp-tracer'', ''/usr/local/bin/oz-seccomp'',
                          ''-mode=whitelist'',
                          ''/usr/lib/gnome-terminal/gnome-terminal-server'']"
proof -
  obtain st' cmd where
    l: "launchApplication example_env [] [] [''a.txt''] example_enforce_state = (st', Inr cmd)"
    by (simp add: launch_eval example_enforce_state_def)
  obtain st'' tcmd where
    m: "launchTerminalServer example_env ''editor'' example_seccomp_state = (st'', Inr tcmd)"
    by (simp add: launch_eval terminal_eval example_seccomp_state_def)
  have a: "path_Base (cmd_Path cmd) = ''oz-seccomp''
      \<and> cmd_Args cmd = [''/usr/local/bin/oz-seccomp'', ''-mode=whitelist'',
                         ''/usr/bin/editor'', ''a.txt'']"
    using seccomp_wrapping [of example_env "[]" "[]" "[''a.txt'']" example_enforce_state st' cmd] l
    by (simp add: Let_def example_enforce_state_def example_state_def example_profile_def
          example_config_def policyArgs_def divertedPath_def example_seccomp)
  have b: "path_Base (cmd_Path tcmd) = ''oz-seccomp-tracer''
      \<and> cmd_Args tcmd = [''/usr/local/bin/oz-seccomp-tracer'', ''/usr/local/bin/oz-seccomp'',
                          ''-mode=whitelist'',
                          ''/usr/lib/gnome-terminal/gnome-terminal-server'']"
    using seccomp_wrapping [of example_env _ _ _ example_seccomp_state _ _ "''editor''" st'' tcmd] m
    by (simp add: Let_def example_seccomp_state_def example_state_def example_profile_def
          example_config_def example_seccomp example_tracer)
  show ?thesis using l m a b by blast
qed

text \<open>
  C3 as stated fails in the application launcher: in mode whitelist without
  enforcement the arguments after \<open>oz-seccomp-tracer\<close> begin with
  \<open>-r -p -\<close>, not with the path of \<open>oz-seccomp\<close>; and in mode train the
  mode passed on is \<open>whitelist\<close>, not \<open>train\<close>.
\<close>

theorem launchApplication_tracer_options_counterexample:
  "map_sum id cmd_Args
      (snd (launchApplication example_env [] [] [''a.txt''] example_seccomp_state))
     = Inr [''/usr/local/bin/oz-seccomp-tracer'', ''-r'', ''-p'', ''-'',
            ''/usr/local/bin/oz-seccomp'', ''-mode=whitelist'', ''/usr/bin/editor'', ''a.txt'']
   \<and> map_sum id cmd_Args
      (snd (launchApplication example_env [] [] [''a.txt''] example_seccomp_state))
     \<noteq> Inr [''/usr/local/bin/oz-seccomp-tracer'',
            ''/usr/local/bin/oz-seccomp'', ''-mode=whitelist'', ''/usr/bin/editor'', ''a.txt'']
   \<and> map_sum id cmd_Args
      (snd (launchApplication example_env [] [] [''a.txt''] example_train_state))
     = Inr [''/usr/local/bin/oz-seccomp-tracer'',
            ''/usr/local/bin/oz-seccomp'', ''-mode=whitelist'', ''/usr/bin/editor'', ''a.txt'']
   \<and> map_sum id cmd_Args
      (snd (launchApplication example_env [] [] [''a.txt''] example_train_state))
     \<noteq> Inr [''/usr/local/bin/oz-seccomp-tracer'',
            ''/usr/local/bin/oz-seccomp'', ''-mode=train'', ''/usr/bin/editor'', ''a.txt'']"
  by (simp add: launch_eval example_seccomp_state_def example_train_state_def)

section \<open>The working directory of a launch\<close>

lemma launchTerminalApplication_dir:
  assumes "launchTerminalApplication env cpath0 pwd0 cmdArgs0 noexec st = (st', Inr cmd)"
  shows "cmd_Dir cmd = (if os_Stat env (if pwd0 = [] then u_HomeDir (st_user st) else pwd0)
                        then (if pwd0 = [] then u_HomeDir (st_user st) else pwd0) else [])"
  using launchTerminalApplication_started [OF assms] by auto

text \<open>
  C7 (amended). For a process started by either application launcher, let
  \<open>d\<close> be the requested \<open>pwd\<close>, or the home directory when \<open>pwd\<close> is
  empty. \<^verbatim>\<open>Dir\<close> is \<open>d\<close> when \<^verbatim>\<open>os.Stat\<close> succeeds on \<open>d\<close> and is left
  empty otherwise, so that the child then runs in the working directory of
  init: there is no fallback to the home directory for a \<open>pwd\<close> that does
  not exist.
\<close>

theorem launch_working_directory:
  assumes "launchApplication env cpath pwd args st = (st', Inr cmd)
         \<or> launchTerminalApplication env cpath pwd args noexec st = (st', Inr cmd)"
  shows "cmd_Dir cmd = (let d = (if pwd = [] then u_HomeDir (st_user st) else pwd)
                        in if os_Stat env d then d else [])
       \<and> childWorkingDir initcwd cmd
           = (let d = (if pwd = [] then u_HomeDir (st_user st) else pwd)
              in if os_Stat env d \<and> d \<noteq> [] then d else initcwd)"
proof -
  have "cmd_Dir cmd = (if os_Stat env (if pwd = [] then u_HomeDir (st_user st) else pwd)
                        then (if pwd = [] then u_HomeDir (st_user st) else pwd) else [])"
    using assms launchApplication_path_args launchTerminalApplication_dir by blast
  then show ?thesis
    by (simp add: childWorkingDir_def Let_def)
qed

text \<open>The theorem at a launch with an empty \<open>pwd\<close> and an existing home.\<close>

theorem launch_working_directory_witness:
  "\<exists>st' cmd. launchApplication example_env [] [] [] example_state = (st', Inr cmd)
      \<and> cmd_Dir cmd = ''/home/user'' \<and> childWorkingDir ''/'' cmd = ''/home/user''"
proof -
  obtain st' cmd where
    l: "launchApplication example_env [] [] [] example_state = (st', Inr cmd)"
    by (simp add: launch_eval)
  have "cmd_Dir cmd = ''/home/user'' \<and> childWorkingDir ''/'' cmd = ''/home/user''"
    using launch_working_directory [of example_env "[]" "[]" "[]" example_state st' cmd False "''/''"] l
    by (simp add: Let_def example_state_def example_env_def)
  then show ?thesis using l by blast
qed

text \<open>
  C7 as stated fails: a \<open>pwd\<close> that does not exist leaves the child in the
  working directory of init (here \<open>/\<close>), not in the home directory.
\<close>

theorem launch_missing_pwd_counterexample:
  "map_sum id (childWorkingDir ''/'')
      (snd (launchApplication example_env [] ''/nonexistent'' [] example_state)) = Inr ''/''
   \<and> u_HomeDir (st_user example_state) = ''/home/user''
   \<and> \<not> os_Stat example_env ''/nonexistent''"
  by (simp add: launch_eval childWorkingDir_def)

section \<open>RunProgram without execution\<close>

text \<open>
  C9. When the profile is not a sandboxed terminal and the request says
  \<open>no_exec\<close>, the handler logs the request and answers \<open>Ok\<close> with no
  descriptor; the registry is unchanged and the log line is the only event, so
  nothing is started. The answer is the one a successful launch gives.
\<close>

theorem handleRunProgram_noexec:
  assumes "\<not> p_IsSandboxedTerminal (st_profile st)" and "rp_NoExec rp"
  shows "handleRunProgram env rp st
           = (logf Info ''Run program message received: %+v'' st, Responded OkMsg [])
       \<and> st_children (fst (handleRunProgram env rp st)) = st_children st
       \<and> st_effects (fst (handleRunProgram env rp st))
           = st_effects st @ [EvLog Info ''Run program message received: %+v'']
       \<and> (\<forall>env' rp' s c.
             \<not> rp_NoExec rp'
             \<and> launchApplication env' (rp_Path rp') (rp_Pwd rp') (rp_Args rp')
                  (logf Info ''Run program message received: %+v'' st) = (s, Inr c)
             \<longrightarrow> snd (handleRunProgram env' rp' st) = snd (handleRunProgram env rp st))"
  using assms by (simp add: handleRunProgram_def Let_def)

text \<open>
  The theorem at a concrete request, beside the same request without
  \<open>no_exec\<close>, which gets the same answer but registers a child.
\<close>

theorem handleRunProgram_noexec_witness:
  "handleRunProgram example_env
      \<lparr>rp_Path = [], rp_Pwd = [], rp_Args = [''a.txt''], rp_NoExec = True\<rparr> example_state
     = (logf Info ''Run program message received: %+v'' example_state, Responded OkMsg [])
   \<and> snd (handleRunProgram example_env
      \<lparr>rp_Path = [], rp_Pwd = [], rp_Args = [''a.txt''], rp_NoExec = False\<rparr> example_state)
     = Responded OkMsg []
   \<and> st_children (fst (handleRunProgram example_env
      \<lparr>rp_Path = [], rp_Pwd = [], rp_Args = [''a.txt''], rp_NoExec = False\<rparr> example_state))
     \<noteq> st_children example_state"
proof -
  have h1: "\<not> p_IsSandboxedTerminal (st_profile example_state)"
    by (simp add: example_state_def example_profile_def)
  have h2: "rp_NoExec \<lparr>rp_Path = [], rp_Pwd = [], rp_Args = [''a.txt''], rp_NoExec = True\<rparr>"
    by simp
  note t = handleRunProgram_noexec [OF h1 h2, of example_env]
  have ok: "snd (handleRunProgram example_env
      \<lparr>rp_Path = [], rp_Pwd = [], rp_Args = [''a.txt''], rp_NoExec = False\<rparr> example_state)
     = Responded OkMsg []"
    by (simp add: handleRunProgram_def launch_eval)
  have ch: "st_children (fst (handleRunProgram example_env
      \<lparr>rp_Path = [], rp_Pwd = [], rp_Args = [''a.txt''], rp_NoExec = False\<rparr> example_state))
     \<noteq> st_children example_state"
    by (simp add: handleRunProgram_def launch_eval)
  show ?thesis using t ok ch by blast
qed

section \<open>RunShell\<close>

lemma addChildProcess_fields [simp]:
  "st_children (addChildProcess cmd pid track st)
     = AList.update pid \<lparr>ps_cmd = cmd, ps_pid = pid, ps_track = track\<rparr> (st_children st)"
  "st_effects (addChildProcess cmd pid track st) = st_effects st"
  by (simp_all add: addChildProcess_def)







section \<open>SetupForwarder\<close>




end
